theory Spec2Isabelle
  imports Main "HOL-Library.Monad_Syntax" "HOL-Library.Sublist"
begin

section \<open>WAL archive and restore coordination (xlogarchive.c)\<close>

text \<open>
  A shallow embedding of \<^verbatim>\<open>src/backend/access/transam/xlogarchive.c\<close>.
  The operating system and the other processes are an oracle \<open>os\<close>: every call the code
  makes is answered by the oracle at the current logical time, which is the number of events
  the process has produced so far. The process state is the trace of those events. Since the
  answers may change from one call to the next, a marker file that another process creates
  between two checks is covered.

  The functions of the C library (\<^verbatim>\<open>stat\<close>, \<^verbatim>\<open>unlink\<close>, \<^verbatim>\<open>system\<close>) and of other
  files of the server (\<^verbatim>\<open>AllocateFile\<close>, \<^verbatim>\<open>FreeFile\<close>, \<^verbatim>\<open>GetOldestRestartPoint\<close>,
  \<^verbatim>\<open>SendPostmasterSignal\<close>, \<^verbatim>\<open>PreRestoreCommand\<close>, \<^verbatim>\<open>PostRestoreCommand\<close>,
  \<^verbatim>\<open>ereport\<close>, \<^verbatim>\<open>proc_exit\<close>) are not embedded: a call is an event of the trace, with
  its arguments and, where it has one, its answer.
\<close>

subsection \<open>Data\<close>

datatype errno = ENOENT | EOTHER nat

datatype stat_result = StatOk int | StatFail errno

datatype elevel = DEBUG3 | DEBUG2 | DEBUG1 | LOG | WARNING | FATAL

datatype pmsignal = PMSIGNAL_WAKEN_ARCHIVER

text \<open>
  A report carries its severity and the format string of its message. Of the severities
  only \<open>FATAL\<close> ends the process.
\<close>

datatype event =
    EStat string stat_result
  | EUnlink string "errno option"
  | EAllocateFile string string "errno option"
  | EFreeFile string "errno option"
  | ESystem string int
  | EGetOldestRestartPoint nat nat
  | EPreRestoreCommand
  | EPostRestoreCommand
  | ESendPostmasterSignal pmsignal
  | EReport elevel string
  | EProcExit int

type_synonym trace = "event list"

text \<open>
  The answers of the environment. \<open>os_stat t p\<close> is what \<^verbatim>\<open>stat(p)\<close> returns when called
  at time \<open>t\<close>: \<open>StatOk st_size\<close>, or \<open>StatFail errno\<close>. For the calls that only succeed or
  fail, \<open>None\<close> is success and \<open>Some e\<close> is failure with \<^verbatim>\<open>errno = e\<close>.
  \<open>os_system t c\<close> is the wait status that \<^verbatim>\<open>system(c)\<close> returns, and
  \<open>os_restart_point t\<close> the pair (redo pointer, timeline) of \<^verbatim>\<open>GetOldestRestartPoint\<close>.
\<close>

record os =
  os_stat :: "nat \<Rightarrow> string \<Rightarrow> stat_result"
  os_unlink :: "nat \<Rightarrow> string \<Rightarrow> errno option"
  os_fopen :: "nat \<Rightarrow> string \<Rightarrow> errno option"
  os_fclose :: "nat \<Rightarrow> string \<Rightarrow> errno option"
  os_system :: "nat \<Rightarrow> string \<Rightarrow> int"
  os_restart_point :: "nat \<Rightarrow> nat \<times> nat"

text \<open>
  What the headers that are not part of this file fix at build time: the buffer size
  \<^verbatim>\<open>MAXPGPATH\<close>, the directory \<^verbatim>\<open>XLOGDIR\<close>, the segment size, the decoding of a wait
  status (\<^verbatim>\<open><sys/wait.h>\<close>), the signal number of \<^verbatim>\<open>SIGTERM\<close>, the character map that
  \<^verbatim>\<open>make_native_path\<close> applies in place, and whether \<^verbatim>\<open>Assert\<close> is compiled in.
  The segment size of a build is a positive power of two; a division by it is written with
  \<open>div\<close>, which is 0 for the divisor 0.
\<close>

record platform =
  MAXPGPATH :: nat
  XLOGDIR :: string
  XLogSegSize :: nat
  WIFSIGNALED :: "int \<Rightarrow> bool"
  WTERMSIG :: "int \<Rightarrow> int"
  WEXITSTATUS :: "int \<Rightarrow> int"
  SIGTERM :: int
  native_char :: "char \<Rightarrow> char"
  USE_ASSERT_CHECKING :: bool

text \<open>The process-wide variables the functions read.\<close>

record globals =
  recoveryRestoreCommand :: "string option"
  StandbyMode :: bool
  IsUnderPostmaster :: bool
  XLogArchivingActive :: bool

text \<open>
  How a function ends: it returns, or \<^verbatim>\<open>ereport(FATAL)\<close> ends the process, or
  \<^verbatim>\<open>proc_exit\<close> does, or an \<^verbatim>\<open>Assert\<close> fails, or a buffer is accessed out of bounds.
\<close>

datatype 'a outcome = Returned 'a | Fatal | ProcExit int | AssertFailed | MemFault

subsection \<open>C strings\<close>

definition NUL :: char where
  "NUL = CHR 0x00"

text \<open>A C string ends at its first NUL; the end of the list is the terminator otherwise.\<close>

definition cstr :: "string \<Rightarrow> string" where
  "cstr s = takeWhile (\<lambda>c. c \<noteq> NUL) s"

text \<open>
  \<^verbatim>\<open>snprintf(dst, n, LIT "%s", arg)\<close> for a literal \<open>LIT\<close>: the text written to \<open>dst\<close>,
  cut to \<open>n - 1\<close> characters.
\<close>

definition snprintf_s :: "nat \<Rightarrow> string \<Rightarrow> string \<Rightarrow> string" where
  "snprintf_s n lit arg = take (n - 1) (lit @ cstr arg)"

text \<open>
  Modelled from the spec: the macro \<^verbatim>\<open>StatusFilePath\<close> of access/xlog_internal.h, which is
  not in this file. The markers are \<^verbatim>\<open><segment>.ready\<close> and \<^verbatim>\<open><segment>.done\<close> in a
  well-known subdirectory of the WAL directory.
\<close>

definition StatusFilePath :: "platform \<Rightarrow> string \<Rightarrow> string \<Rightarrow> string" where
  "StatusFilePath P xlog sfx =
     take (MAXPGPATH P - 1) (XLOGDIR P @ ''/archive_status/'' @ cstr xlog @ sfx)"

text \<open>\<^verbatim>\<open>ereport\<close> adds the report to the trace; the caller ends after a \<open>FATAL\<close> one.\<close>

definition ereport :: "elevel \<Rightarrow> string \<Rightarrow> trace \<Rightarrow> trace" where
  "ereport lvl msg tr = tr @ [EReport lvl msg]"

subsection \<open>The archive status protocol\<close>

text \<open>Lines 428 to 457. The result is the trace; the function returns nothing.\<close>

definition XLogArchiveNotify :: "platform \<Rightarrow> globals \<Rightarrow> os \<Rightarrow> string \<Rightarrow> trace \<Rightarrow> trace" where
  "XLogArchiveNotify P G E xlog tr =
     (let archiveStatusPath = StatusFilePath P xlog ''.ready'';
          fd = os_fopen E (length tr) archiveStatusPath;
          tr1 = tr @ [EAllocateFile archiveStatusPath ''w'' fd]
      in case fd of
           Some e \<Rightarrow> ereport LOG ''could not create archive status file \"%s\": %m'' tr1
         | None \<Rightarrow>
             (let c = os_fclose E (length tr1) archiveStatusPath;
                  tr2 = tr1 @ [EFreeFile archiveStatusPath c]
              in case c of
                   Some e \<Rightarrow> ereport LOG ''could not write archive status file \"%s\": %m'' tr2
                 | None \<Rightarrow>
                     if IsUnderPostmaster G
                     then tr2 @ [ESendPostmasterSignal PMSIGNAL_WAKEN_ARCHIVER]
                     else tr2))"

definition is_ok :: "stat_result \<Rightarrow> bool" where
  "is_ok r = (case r of StatOk _ \<Rightarrow> True | StatFail _ \<Rightarrow> False)"

text \<open>
  Lines 485 to 513. \<^verbatim>\<open>XLogArchivingActive()\<close> is a macro over two settings, here a flag.
\<close>

definition XLogArchiveCheckDone ::
  "platform \<Rightarrow> globals \<Rightarrow> os \<Rightarrow> string \<Rightarrow> trace \<Rightarrow> bool \<times> trace" where
  "XLogArchiveCheckDone P G E xlog tr =
     (if \<not> XLogArchivingActive G then (True, tr)
      else
        let r1 = os_stat E (length tr) (StatusFilePath P xlog ''.done'');
            tr1 = tr @ [EStat (StatusFilePath P xlog ''.done'') r1]
        in if is_ok r1 then (True, tr1)
           else
             let r2 = os_stat E (length tr1) (StatusFilePath P xlog ''.ready'');
                 tr2 = tr1 @ [EStat (StatusFilePath P xlog ''.ready'') r2]
             in if is_ok r2 then (False, tr2)
                else
                  let r3 = os_stat E (length tr2) (StatusFilePath P xlog ''.done'');
                      tr3 = tr2 @ [EStat (StatusFilePath P xlog ''.done'') r3]
                  in if is_ok r3 then (True, tr3)
                     else (False, XLogArchiveNotify P G E xlog tr3))"

text \<open>Lines 525 to 557.\<close>

definition XLogArchiveIsBusy :: "platform \<Rightarrow> os \<Rightarrow> string \<Rightarrow> trace \<Rightarrow> bool \<times> trace" where
  "XLogArchiveIsBusy P E xlog tr =
     (let r1 = os_stat E (length tr) (StatusFilePath P xlog ''.done'');
          tr1 = tr @ [EStat (StatusFilePath P xlog ''.done'') r1]
      in if is_ok r1 then (False, tr1)
         else
           let r2 = os_stat E (length tr1) (StatusFilePath P xlog ''.ready'');
               tr2 = tr1 @ [EStat (StatusFilePath P xlog ''.ready'') r2]
           in if is_ok r2 then (True, tr2)
              else
                let r3 = os_stat E (length tr2) (StatusFilePath P xlog ''.done'');
                    tr3 = tr2 @ [EStat (StatusFilePath P xlog ''.done'') r3]
                in if is_ok r3 then (False, tr3)
                   else
                     let r4 = os_stat E (length tr3) (snprintf_s (MAXPGPATH P) (XLOGDIR P @ ''/'') xlog);
                         tr4 = tr3 @ [EStat (snprintf_s (MAXPGPATH P) (XLOGDIR P @ ''/'') xlog) r4]
                     in if r4 = StatFail ENOENT then (False, tr4) else (True, tr4))"

subsection \<open>Character buffers\<close>

text \<open>
  A local array \<^verbatim>\<open>char buf[n]\<close> is a list of \<open>n\<close> characters, a pointer into it an
  index. The array is not initialised: its first contents are \<open>junk\<close>. Every access
  outside the array is \<open>None\<close>.
\<close>

type_synonym buffer = "char list"

definition uninitialised :: "nat \<Rightarrow> (nat \<Rightarrow> char) \<Rightarrow> buffer" where
  "uninitialised n junk = map junk [0..<n]"

definition poke :: "buffer \<Rightarrow> nat \<Rightarrow> char \<Rightarrow> buffer option" where
  "poke b i c = (if i < length b then Some (b[i := c]) else None)"

text \<open>\<^verbatim>\<open>strlen(b + i)\<close> reads up to the first NUL, which has to be inside the array.\<close>

definition strlen_at :: "buffer \<Rightarrow> nat \<Rightarrow> nat option" where
  "strlen_at b i =
     (let n = length (takeWhile (\<lambda>c. c \<noteq> NUL) (drop i b))
      in if i + n < length b then Some n else None)"

text \<open>
  \<^verbatim>\<open>strncpy(b + dst, src, n)\<close> writes exactly \<open>n\<close> characters: those of \<open>src\<close>, at most
  \<open>n\<close> of them, then NUL up to \<open>n\<close>.
\<close>

definition strncpy :: "buffer \<Rightarrow> nat \<Rightarrow> string \<Rightarrow> nat \<Rightarrow> buffer option" where
  "strncpy b dst src n =
     (if dst + n \<le> length b
      then Some (take dst b @ take n (cstr src @ replicate n NUL) @ drop (dst + n) b)
      else None)"

text \<open>
  Modelled from the spec: the macro \<^verbatim>\<open>StrNCpy(dst, src, len)\<close> of c.h, which is not in
  this file. It is the bounded copy of the string builder, which stops without an error
  where the capacity ends and leaves a terminated string: nothing for \<open>len = 0\<close>, else
  \<^verbatim>\<open>strncpy\<close> and a NUL in the last of the \<open>len\<close> places.
\<close>

definition StrNCpy :: "buffer \<Rightarrow> nat \<Rightarrow> string \<Rightarrow> nat \<Rightarrow> buffer option" where
  "StrNCpy b dst src len =
     (if 0 < len
      then do { b1 \<leftarrow> strncpy b dst src len; poke b1 (dst + len - 1) NUL }
      else Some b)"

text \<open>
  Modelled from the spec: \<^verbatim>\<open>make_native_path\<close> of port/path.c, which is not in this file;
  \<^verbatim>\<open>%p\<close> stands for the path of the target file, in the form of the platform. The
  function rewrites the string at \<open>i\<close> in place, character by character, up to its NUL;
  the map of the characters is the parameter \<open>native_char\<close> (the identity except on
  Windows).
\<close>

definition make_native_path :: "platform \<Rightarrow> buffer \<Rightarrow> nat \<Rightarrow> buffer option" where
  "make_native_path P b i =
     do { n \<leftarrow> strlen_at b i;
          Some (take i b @ map (native_char P) (take n (drop i b)) @ drop (i + n) b) }"

text \<open>The guarded store \<^verbatim>\<open>if (dp < endp) *dp++ = c;\<close> on the pair (array, \<open>dp\<close>).\<close>

definition put_char :: "nat \<Rightarrow> buffer \<times> nat \<Rightarrow> char \<Rightarrow> (buffer \<times> nat) option" where
  "put_char endp st c =
     (case st of (b, dp) \<Rightarrow>
        if dp < endp then do { b1 \<leftarrow> poke b dp c; Some (b1, dp + 1) } else Some (b, dp))"

text \<open>
  \<^verbatim>\<open>StrNCpy(dp, src, endp - dp); dp += strlen(dp);\<close> The length is unsigned: were \<open>dp\<close>
  beyond \<open>endp\<close>, it would wrap to a huge value and the copy would leave the array.
\<close>

definition put_string :: "nat \<Rightarrow> buffer \<times> nat \<Rightarrow> string \<Rightarrow> (buffer \<times> nat) option" where
  "put_string endp st src =
     (case st of (b, dp) \<Rightarrow>
        if endp < dp then None
        else do { b1 \<leftarrow> StrNCpy b dp src (endp - dp);
                  n \<leftarrow> strlen_at b1 dp;
                  Some (b1, dp + n) })"

text \<open>The same with \<^verbatim>\<open>make_native_path(dp)\<close> between the copy and the \<^verbatim>\<open>strlen\<close>.\<close>

definition put_native_path ::
  "platform \<Rightarrow> nat \<Rightarrow> buffer \<times> nat \<Rightarrow> string \<Rightarrow> (buffer \<times> nat) option" where
  "put_native_path P endp st src =
     (case st of (b, dp) \<Rightarrow>
        if endp < dp then None
        else do { b1 \<leftarrow> StrNCpy b dp src (endp - dp);
                  b2 \<leftarrow> make_native_path P b1 dp;
                  n \<leftarrow> strlen_at b2 dp;
                  Some (b2, dp + n) })"

text \<open>\<^verbatim>\<open>sp[1]\<close>, where the list holds what follows \<^verbatim>\<open>*sp\<close>.\<close>

definition peek :: "string \<Rightarrow> char" where
  "peek cs = (case cs of [] \<Rightarrow> NUL | d # _ \<Rightarrow> d)"

subsection \<open>Building the command\<close>

text \<open>
  The loop of \<^verbatim>\<open>RestoreArchivedFile\<close> over the template; the list is the rest of the
  template from \<^verbatim>\<open>sp\<close> on. After \<^verbatim>\<open>sp++\<close> inside a case the loop goes on behind the
  placeholder character.
\<close>

fun restore_cmd_loop ::
  "platform \<Rightarrow> nat \<Rightarrow> string \<Rightarrow> string \<Rightarrow> string \<Rightarrow> string \<Rightarrow> buffer \<times> nat
     \<Rightarrow> (buffer \<times> nat) option" where
  "restore_cmd_loop P endp xlogpath xlogfname lastRestartPointFname [] st = Some st"
| "restore_cmd_loop P endp xlogpath xlogfname lastRestartPointFname (c # cs) st =
     (if c = NUL then Some st
      else if c = CHR ''%'' then
        (if peek cs = CHR ''p'' then
           do { st1 \<leftarrow> put_native_path P endp st xlogpath;
                restore_cmd_loop P endp xlogpath xlogfname lastRestartPointFname (tl cs) st1 }
         else if peek cs = CHR ''f'' then
           do { st1 \<leftarrow> put_string endp st xlogfname;
                restore_cmd_loop P endp xlogpath xlogfname lastRestartPointFname (tl cs) st1 }
         else if peek cs = CHR ''r'' then
           do { st1 \<leftarrow> put_string endp st lastRestartPointFname;
                restore_cmd_loop P endp xlogpath xlogfname lastRestartPointFname (tl cs) st1 }
         else if peek cs = CHR ''%'' then
           do { st1 \<leftarrow> put_char endp st (peek cs);
                restore_cmd_loop P endp xlogpath xlogfname lastRestartPointFname (tl cs) st1 }
         else
           do { st1 \<leftarrow> put_char endp st c;
                restore_cmd_loop P endp xlogpath xlogfname lastRestartPointFname cs st1 })
      else
        do { st1 \<leftarrow> put_char endp st c;
             restore_cmd_loop P endp xlogpath xlogfname lastRestartPointFname cs st1 })"

text \<open>
  Lines 147 to 195: the array, the NUL at its last place, the loop, the closing NUL. The
  result is the C string at the start of the array, which is what \<^verbatim>\<open>system\<close> reads.
\<close>

definition build_restore_cmd ::
  "platform \<Rightarrow> (nat \<Rightarrow> char) \<Rightarrow> string \<Rightarrow> string \<Rightarrow> string \<Rightarrow> string \<Rightarrow> string option" where
  "build_restore_cmd P junk template xlogpath xlogfname lastRestartPointFname =
     do { let xlogRestoreCmd = uninitialised (MAXPGPATH P) junk;
          let endp = MAXPGPATH P - 1;
          b1 \<leftarrow> (if 0 < MAXPGPATH P then poke xlogRestoreCmd endp NUL else None);
          (b2, dp) \<leftarrow> restore_cmd_loop P endp xlogpath xlogfname lastRestartPointFname
                        template (b1, 0);
          b3 \<leftarrow> poke b2 dp NUL;
          n \<leftarrow> strlen_at b3 0;
          Some (take n b3) }"

text \<open>The loop of \<^verbatim>\<open>ExecuteRecoveryCommand\<close>, which knows \<^verbatim>\<open>%r\<close> and \<^verbatim>\<open>%%\<close> only.\<close>

fun recovery_cmd_loop ::
  "nat \<Rightarrow> string \<Rightarrow> string \<Rightarrow> buffer \<times> nat \<Rightarrow> (buffer \<times> nat) option" where
  "recovery_cmd_loop endp lastRestartPointFname [] st = Some st"
| "recovery_cmd_loop endp lastRestartPointFname (c # cs) st =
     (if c = NUL then Some st
      else if c = CHR ''%'' then
        (if peek cs = CHR ''r'' then
           do { st1 \<leftarrow> put_string endp st lastRestartPointFname;
                recovery_cmd_loop endp lastRestartPointFname (tl cs) st1 }
         else if peek cs = CHR ''%'' then
           do { st1 \<leftarrow> put_char endp st (peek cs);
                recovery_cmd_loop endp lastRestartPointFname (tl cs) st1 }
         else
           do { st1 \<leftarrow> put_char endp st c;
                recovery_cmd_loop endp lastRestartPointFname cs st1 })
      else
        do { st1 \<leftarrow> put_char endp st c;
             recovery_cmd_loop endp lastRestartPointFname cs st1 })"

definition build_recovery_cmd ::
  "platform \<Rightarrow> (nat \<Rightarrow> char) \<Rightarrow> string \<Rightarrow> string \<Rightarrow> string option" where
  "build_recovery_cmd P junk command lastRestartPointFname =
     do { let xlogRecoveryCmd = uninitialised (MAXPGPATH P) junk;
          let endp = MAXPGPATH P - 1;
          b1 \<leftarrow> (if 0 < MAXPGPATH P then poke xlogRecoveryCmd endp NUL else None);
          (b2, dp) \<leftarrow> recovery_cmd_loop endp lastRestartPointFname command (b1, 0);
          b3 \<leftarrow> poke b2 dp NUL;
          n \<leftarrow> strlen_at b3 0;
          Some (take n b3) }"

subsection \<open>Segment file names\<close>

text \<open>
  The macros \<^verbatim>\<open>XLByteToSeg\<close> and \<^verbatim>\<open>XLogFileName\<close> of access/xlog_internal.h are not in
  this file. In the specification a segment identity is timeline and sequence, rendered as
  a fixed-width file name that sorts as the segments do. The example of the source,
  \<^verbatim>\<open>0000000100000001000000C6\<close>, shows the rendering: three fields of eight upper-case
  hexadecimal digits, for the timeline and for the high and the low part of the sequence
  number.
\<close>

text \<open>
  Modelled from the spec: a digit of the fixed-width file name of a segment (the format
  \<^verbatim>\<open>%X\<close> of the absent macro \<^verbatim>\<open>XLogFileName\<close>).
\<close>

definition hex_digit :: "nat \<Rightarrow> char" where
  "hex_digit d = ''0123456789ABCDEF'' ! (d mod 16)"

text \<open>
  Modelled from the spec: one field of the fixed-width file name of a segment (the format
  \<^verbatim>\<open>%08X\<close> of the absent macro \<^verbatim>\<open>XLogFileName\<close>, on a 32-bit value).
\<close>

definition hex8 :: "nat \<Rightarrow> string" where
  "hex8 v = map (\<lambda>i. hex_digit ((v mod 2 ^ 32) div 16 ^ (7 - i))) [0..<8]"

text \<open>
  Modelled from the spec: the absent macro \<^verbatim>\<open>XLogSegmentsPerXLogId\<close>, the number of
  segments in 4 GB of log, after which the high part of the sequence number changes.
\<close>

definition XLogSegmentsPerXLogId :: "platform \<Rightarrow> nat" where
  "XLogSegmentsPerXLogId P = 0x100000000 div XLogSegSize P"

text \<open>
  Modelled from the spec: the absent macro \<^verbatim>\<open>XLByteToSeg\<close>, the sequence number of the
  segment that holds a log position.
\<close>

definition XLByteToSeg :: "platform \<Rightarrow> nat \<Rightarrow> nat" where
  "XLByteToSeg P xlrp = xlrp div XLogSegSize P"

text \<open>
  Modelled from the spec: the absent macro \<^verbatim>\<open>XLogFileName\<close>, the fixed-width file name
  of the segment with the given timeline and sequence number.
\<close>

definition XLogFileName :: "platform \<Rightarrow> nat \<Rightarrow> nat \<Rightarrow> string" where
  "XLogFileName P tli logSegNo =
     hex8 tli @ hex8 (logSegNo div XLogSegmentsPerXLogId P)
       @ hex8 (logSegNo mod XLogSegmentsPerXLogId P)"

text \<open>
  \<^verbatim>\<open>strcmp\<close> on C strings: the difference of the first two characters that differ, as
  unsigned values; the end of a string counts as 0. Only the sign is used.
\<close>

fun strcmp_chars :: "string \<Rightarrow> string \<Rightarrow> int" where
  "strcmp_chars [] [] = 0"
| "strcmp_chars [] (b # bs) = - int (of_char b)"
| "strcmp_chars (a # as) [] = int (of_char a)"
| "strcmp_chars (a # as) (b # bs) =
     (if a = b then strcmp_chars as bs else int (of_char a) - int (of_char b))"

definition strcmp :: "string \<Rightarrow> string \<Rightarrow> int" where
  "strcmp s1 s2 = strcmp_chars (cstr s1) (cstr s2)"

subsection \<open>Restoring a file from the archive\<close>

text \<open>Lines 99 to 114: no file named \<open>recovername\<close> may be left. \<open>Inl\<close> is the FATAL exit.\<close>

definition remove_existing :: "os \<Rightarrow> string \<Rightarrow> trace \<Rightarrow> trace + trace" where
  "remove_existing E xlogpath tr =
     (let r = os_stat E (length tr) xlogpath;
          tr1 = tr @ [EStat xlogpath r]
      in case r of
           StatFail e \<Rightarrow>
             if e \<noteq> ENOENT
             then Inl (ereport FATAL ''could not stat file \"%s\": %m'' tr1)
             else Inr tr1
         | StatOk st_size \<Rightarrow>
             (let u = os_unlink E (length tr1) xlogpath;
                  tr2 = tr1 @ [EUnlink xlogpath u]
              in case u of
                   Some e \<Rightarrow> Inl (ereport FATAL ''could not remove file \"%s\": %m'' tr2)
                 | None \<Rightarrow> Inr tr2))"

text \<open>
  \<^verbatim>\<open>GetOldestRestartPoint\<close>, \<^verbatim>\<open>XLByteToSeg\<close>, \<^verbatim>\<open>XLogFileName\<close>, as both functions
  call them.
\<close>

definition oldest_restart_fname :: "platform \<Rightarrow> os \<Rightarrow> trace \<Rightarrow> string \<times> trace" where
  "oldest_restart_fname P E tr =
     (case os_restart_point E (length tr) of
        (restartRedoPtr, restartTli) \<Rightarrow>
          (XLogFileName P restartTli (XLByteToSeg P restartRedoPtr),
           tr @ [EGetOldestRestartPoint restartRedoPtr restartTli]))"

text \<open>Lines 133 to 142, without the assertion.\<close>

definition cutoff_fname :: "platform \<Rightarrow> os \<Rightarrow> bool \<Rightarrow> trace \<Rightarrow> string \<times> trace" where
  "cutoff_fname P E cleanupEnabled tr =
     (if cleanupEnabled then oldest_restart_fname P E tr else (XLogFileName P 0 0, tr))"

text \<open>The label \<^verbatim>\<open>not_available\<close>, lines 304 to 314.\<close>

definition not_available ::
  "platform \<Rightarrow> string \<Rightarrow> trace \<Rightarrow> (bool \<times> string option) outcome \<times> trace" where
  "not_available P xlogfname tr =
     (Returned (False, Some (snprintf_s (MAXPGPATH P) (XLOGDIR P @ ''/'') xlogfname)), tr)"

text \<open>
  Lines 94 to 211, for a configured restore command \<open>template\<close>: up to the return of
  \<^verbatim>\<open>system\<close> and \<^verbatim>\<open>PostRestoreCommand\<close>. \<open>Inr\<close> carries the wait status \<open>rc\<close>;
  \<open>Inl\<close> is an exit before the command ran. The calls \<^verbatim>\<open>PreRestoreCommand\<close> and
  \<^verbatim>\<open>PostRestoreCommand\<close> of the startup process are events only.
\<close>

definition run_restore_command ::
  "platform \<Rightarrow> os \<Rightarrow> (nat \<Rightarrow> char) \<Rightarrow> string \<Rightarrow> string \<Rightarrow> string \<Rightarrow> bool \<Rightarrow> trace
     \<Rightarrow> ((bool \<times> string option) outcome \<times> trace) + (int \<times> trace)" where
  "run_restore_command P E junk template xlogfname recovername cleanupEnabled tr =
     (let xlogpath = snprintf_s (MAXPGPATH P) (XLOGDIR P @ ''/'') recovername
      in case remove_existing E xlogpath tr of
           Inl tr1 \<Rightarrow> Inl (Fatal, tr1)
         | Inr tr1 \<Rightarrow>
             (case cutoff_fname P E cleanupEnabled tr1 of
                (lastRestartPointFname, tr2) \<Rightarrow>
                  if cleanupEnabled \<and> USE_ASSERT_CHECKING P
                       \<and> \<not> strcmp lastRestartPointFname xlogfname \<le> 0
                  then Inl (AssertFailed, tr2)
                  else
                    (case build_restore_cmd P junk template xlogpath xlogfname
                            lastRestartPointFname of
                       None \<Rightarrow> Inl (MemFault, tr2)
                     | Some xlogRestoreCmd \<Rightarrow>
                         (let tr3 = ereport DEBUG3 ''executing restore command \"%s\"'' tr2;
                              tr4 = tr3 @ [EPreRestoreCommand];
                              rc = os_system E (length tr4) xlogRestoreCmd;
                              tr5 = tr4 @ [ESystem xlogRestoreCmd rc];
                              tr6 = tr5 @ [EPostRestoreCommand]
                          in Inr (rc, tr6)))))"

text \<open>Lines 295 to 314: the command failed, or left no file.\<close>

definition restore_failed ::
  "platform \<Rightarrow> string \<Rightarrow> int \<Rightarrow> trace \<Rightarrow> (bool \<times> string option) outcome \<times> trace" where
  "restore_failed P xlogfname rc tr =
     (if WIFSIGNALED P rc \<and> WTERMSIG P rc = SIGTERM P
      then (ProcExit 1, tr @ [EProcExit 1])
      else
        let signaled = (WIFSIGNALED P rc \<or> 125 < WEXITSTATUS P rc);
            elevel = (if signaled then FATAL else DEBUG2);
            tr1 = ereport elevel
                    ''could not restore file \"%s\" from archive: return code %d'' tr
        in if elevel = FATAL then (Fatal, tr1) else not_available P xlogfname tr1)"

text \<open>
  Lines 213 to 266, and on to line 295. The sizes are \<^verbatim>\<open>off_t\<close>, a signed type. On the
  wrong-size path the function returns without writing \<^verbatim>\<open>path\<close>.
\<close>

definition check_restored ::
  "platform \<Rightarrow> globals \<Rightarrow> os \<Rightarrow> string \<Rightarrow> string \<Rightarrow> int \<Rightarrow> int \<Rightarrow> trace
     \<Rightarrow> (bool \<times> string option) outcome \<times> trace" where
  "check_restored P G E xlogpath xlogfname expectedSize rc tr =
     (if rc = 0 then
        (let r = os_stat E (length tr) xlogpath;
             tr1 = tr @ [EStat xlogpath r]
         in case r of
              StatOk st_size \<Rightarrow>
                if 0 < expectedSize \<and> st_size \<noteq> expectedSize then
                  (let elevel = (if StandbyMode G \<and> st_size < expectedSize
                                 then DEBUG1 else FATAL);
                       tr2 = ereport elevel
                               ''archive file \"%s\" has wrong size: %lu instead of %lu'' tr1
                   in if elevel = FATAL then (Fatal, tr2) else (Returned (False, None), tr2))
                else
                  (Returned (True, Some xlogpath),
                   ereport LOG ''restored log file \"%s\" from archive'' tr1)
            | StatFail e \<Rightarrow>
                if e \<noteq> ENOENT
                then (Fatal, ereport FATAL ''could not stat file \"%s\": %m'' tr1)
                else restore_failed P xlogfname rc tr1)
      else restore_failed P xlogfname rc tr)"

text \<open>
  The result is the returned flag and what was written to \<^verbatim>\<open>path\<close>, if anything.
\<close>

definition RestoreArchivedFile ::
  "platform \<Rightarrow> globals \<Rightarrow> os \<Rightarrow> (nat \<Rightarrow> char) \<Rightarrow> string \<Rightarrow> string \<Rightarrow> int \<Rightarrow> bool \<Rightarrow> trace
     \<Rightarrow> (bool \<times> string option) outcome \<times> trace" where
  "RestoreArchivedFile P G E junk xlogfname recovername expectedSize cleanupEnabled tr =
     (case recoveryRestoreCommand G of
        None \<Rightarrow> not_available P xlogfname tr
      | Some template \<Rightarrow>
          (case run_restore_command P E junk template xlogfname recovername cleanupEnabled tr of
             Inl stopped \<Rightarrow> stopped
           | Inr (rc, tr1) \<Rightarrow>
               check_restored P G E (snprintf_s (MAXPGPATH P) (XLOGDIR P @ ''/'') recovername)
                 xlogfname expectedSize rc tr1))"

subsection \<open>Running a recovery command\<close>

text \<open>
  \<^verbatim>\<open>command\<close> and \<^verbatim>\<open>commandName\<close> are asserted to be non-null; here they are strings.
\<close>

definition ExecuteRecoveryCommand ::
  "platform \<Rightarrow> os \<Rightarrow> (nat \<Rightarrow> char) \<Rightarrow> string \<Rightarrow> string \<Rightarrow> bool \<Rightarrow> trace
     \<Rightarrow> unit outcome \<times> trace" where
  "ExecuteRecoveryCommand P E junk command commandName failOnSignal tr =
     (case oldest_restart_fname P E tr of
        (lastRestartPointFname, tr1) \<Rightarrow>
          (case build_recovery_cmd P junk command lastRestartPointFname of
             None \<Rightarrow> (MemFault, tr1)
           | Some xlogRecoveryCmd \<Rightarrow>
               (let tr2 = ereport DEBUG3 ''executing %s \"%s\"'' tr1;
                    rc = os_system E (length tr2) xlogRecoveryCmd;
                    tr3 = tr2 @ [ESystem xlogRecoveryCmd rc]
                in if rc \<noteq> 0 then
                     (let signaled = (WIFSIGNALED P rc \<or> 125 < WEXITSTATUS P rc);
                          elevel = (if signaled \<and> failOnSignal then FATAL else WARNING);
                          tr4 = ereport elevel ''%s \"%s\": return code %d'' tr3
                      in if elevel = FATAL then (Fatal, tr4) else (Returned (), tr4))
                   else (Returned (), tr3))))"

subsection \<open>The expansion on strings\<close>

text \<open>
  What the two loops compute, on strings instead of arrays: \<open>acc\<close> is the text written so
  far and \<open>cap\<close> the number of characters the array takes before its last place. A single
  character is appended while there is room. A substituted string is cut to one character
  less than the room that is left, since \<^verbatim>\<open>StrNCpy\<close> ends its copy with a NUL.
\<close>

definition text_put_char :: "nat \<Rightarrow> string \<Rightarrow> char \<Rightarrow> string" where
  "text_put_char cap acc c = (if length acc < cap then acc @ [c] else acc)"

definition text_put_string :: "nat \<Rightarrow> string \<Rightarrow> string \<Rightarrow> string" where
  "text_put_string cap acc src = acc @ take (cap - length acc - 1) (cstr src)"

definition text_put_native_path :: "platform \<Rightarrow> nat \<Rightarrow> string \<Rightarrow> string \<Rightarrow> string" where
  "text_put_native_path P cap acc src =
     acc @ cstr (map (native_char P) (take (cap - length acc - 1) (cstr src)))"

fun restore_cmd_text ::
  "platform \<Rightarrow> nat \<Rightarrow> string \<Rightarrow> string \<Rightarrow> string \<Rightarrow> string \<Rightarrow> string \<Rightarrow> string" where
  "restore_cmd_text P cap xlogpath xlogfname lastRestartPointFname [] acc = acc"
| "restore_cmd_text P cap xlogpath xlogfname lastRestartPointFname (c # cs) acc =
     (if c = NUL then acc
      else if c = CHR ''%'' then
        (if peek cs = CHR ''p'' then
           restore_cmd_text P cap xlogpath xlogfname lastRestartPointFname (tl cs)
             (text_put_native_path P cap acc xlogpath)
         else if peek cs = CHR ''f'' then
           restore_cmd_text P cap xlogpath xlogfname lastRestartPointFname (tl cs)
             (text_put_string cap acc xlogfname)
         else if peek cs = CHR ''r'' then
           restore_cmd_text P cap xlogpath xlogfname lastRestartPointFname (tl cs)
             (text_put_string cap acc lastRestartPointFname)
         else if peek cs = CHR ''%'' then
           restore_cmd_text P cap xlogpath xlogfname lastRestartPointFname (tl cs)
             (text_put_char cap acc (CHR ''%''))
         else
           restore_cmd_text P cap xlogpath xlogfname lastRestartPointFname cs
             (text_put_char cap acc c))
      else
        restore_cmd_text P cap xlogpath xlogfname lastRestartPointFname cs
          (text_put_char cap acc c))"

fun recovery_cmd_text :: "nat \<Rightarrow> string \<Rightarrow> string \<Rightarrow> string \<Rightarrow> string" where
  "recovery_cmd_text cap lastRestartPointFname [] acc = acc"
| "recovery_cmd_text cap lastRestartPointFname (c # cs) acc =
     (if c = NUL then acc
      else if c = CHR ''%'' then
        (if peek cs = CHR ''r'' then
           recovery_cmd_text cap lastRestartPointFname (tl cs)
             (text_put_string cap acc lastRestartPointFname)
         else if peek cs = CHR ''%'' then
           recovery_cmd_text cap lastRestartPointFname (tl cs)
             (text_put_char cap acc (CHR ''%''))
         else
           recovery_cmd_text cap lastRestartPointFname cs (text_put_char cap acc c))
      else
        recovery_cmd_text cap lastRestartPointFname cs (text_put_char cap acc c))"

subsection \<open>The expansion as the specification words it\<close>

text \<open>
  The template expander of the specification, without a bound on the output: a table maps
  each recognised placeholder character to its value; \<^verbatim>\<open>%%\<close> is one \<^verbatim>\<open>%\<close>; a
  \<^verbatim>\<open>%\<close> before any other character, or at the end, stands for itself, and so does the
  character after it.
\<close>

fun expand_template :: "(char \<Rightarrow> string option) \<Rightarrow> string \<Rightarrow> string" where
  "expand_template tbl [] = []"
| "expand_template tbl [c] = [c]"
| "expand_template tbl (c # d # cs) =
     (if c = CHR ''%'' then
        (if d = CHR ''%'' then CHR ''%'' # expand_template tbl cs
         else case tbl d of
                Some v \<Rightarrow> v @ expand_template tbl cs
              | None \<Rightarrow> CHR ''%'' # d # expand_template tbl cs)
      else c # expand_template tbl (d # cs))"

text \<open>
  The values at the two call sites: \<^verbatim>\<open>%p\<close>, \<^verbatim>\<open>%f\<close> and \<^verbatim>\<open>%r\<close> for the restore
  command, \<^verbatim>\<open>%r\<close> alone for a recovery command.
\<close>

definition restore_placeholders ::
  "platform \<Rightarrow> string \<Rightarrow> string \<Rightarrow> string \<Rightarrow> char \<Rightarrow> string option" where
  "restore_placeholders P xlogpath xlogfname lastRestartPointFname d =
     (if d = CHR ''p'' then Some (cstr (map (native_char P) (cstr xlogpath)))
      else if d = CHR ''f'' then Some (cstr xlogfname)
      else if d = CHR ''r'' then Some (cstr lastRestartPointFname)
      else None)"

definition recovery_placeholders :: "string \<Rightarrow> char \<Rightarrow> string option" where
  "recovery_placeholders lastRestartPointFname d =
     (if d = CHR ''r'' then Some (cstr lastRestartPointFname) else None)"

subsection \<open>A platform and an environment for examples\<close>

text \<open>
  The values of a Linux build: paths of 1024 bytes, segments of 16 MB, the wait status
  with the signal in its low seven bits and the exit code in the next eight, and
  \<^verbatim>\<open>make_native_path\<close> doing nothing.
\<close>

definition linux :: platform where
  "linux = \<lparr> MAXPGPATH = 1024, XLOGDIR = ''pg_xlog'', XLogSegSize = 16777216,
             WIFSIGNALED = (\<lambda>s. s mod 128 \<noteq> 0 \<and> s mod 128 \<noteq> 127),
             WTERMSIG = (\<lambda>s. s mod 128),
             WEXITSTATUS = (\<lambda>s. (s div 256) mod 256),
             SIGTERM = 15, native_char = (\<lambda>c. c), USE_ASSERT_CHECKING = True \<rparr>"

text \<open>
  An environment in which no file exists, every call succeeds, every command exits with
  status 0, and the oldest restart point is at the start of segment 2 on timeline 1.
\<close>

definition quiet :: os where
  "quiet = \<lparr> os_stat = (\<lambda>t p. StatFail ENOENT), os_unlink = (\<lambda>t p. None),
             os_fopen = (\<lambda>t p. None), os_fclose = (\<lambda>t p. None),
             os_system = (\<lambda>t c. 0), os_restart_point = (\<lambda>t. (33554432, 1)) \<rparr>"

text \<open>
  The same, but the restored file is there after the command, with the given size; and the
  same, but every command ends with the given wait status.
\<close>

definition restored :: "int \<Rightarrow> os" where
  "restored st_size =
     quiet \<lparr> os_stat := (\<lambda>t p. if t = 0 then StatFail ENOENT else StatOk st_size) \<rparr>"

definition failing :: "int \<Rightarrow> os" where
  "failing rc = quiet \<lparr> os_system := (\<lambda>t c. rc) \<rparr>"

text \<open>
  An environment in which every file is absent before time \<open>k\<close> and present from then on,
  as when the archiver finishes between two checks; and one in which closing a file fails
  (errno 28, no space left on the device).
\<close>

definition done_appears_at :: "nat \<Rightarrow> os" where
  "done_appears_at k =
     quiet \<lparr> os_stat := (\<lambda>t p. if k \<le> t then StatOk 0 else StatFail ENOENT) \<rparr>"

definition disk_full :: os where
  "disk_full = quiet \<lparr> os_fclose := (\<lambda>t p. Some (EOTHER 28)) \<rparr>"

text \<open>What an array on the stack may hold before it is written.\<close>

definition stale :: "nat \<Rightarrow> char" where
  "stale i = CHR ''#''"

definition settings :: globals where
  "settings = \<lparr> recoveryRestoreCommand = Some ''cp /mnt/archive/%f %p'',
                StandbyMode = False, IsUnderPostmaster = True, XLogArchivingActive = True \<rparr>"

subsection \<open>Auxiliary notions for the proofs\<close>

text \<open>
  The array \<open>b\<close> with the pointer \<open>dp\<close> holds the text \<open>acc\<close>: the text fills the array
  up to \<open>dp\<close>, has no NUL, and the last place of the array is NUL.
\<close>

definition holds :: "nat \<Rightarrow> buffer \<times> nat \<Rightarrow> string \<Rightarrow> bool" where
  "holds N st acc =
     (case st of (b, dp) \<Rightarrow>
        dp = length acc \<and> length b = N \<and> dp < N \<and> take dp b = acc
          \<and> b ! (N - 1) = NUL \<and> NUL \<notin> set acc)"

definition is_stat :: "event \<Rightarrow> bool" where
  "is_stat e = (case e of EStat p r \<Rightarrow> True | _ \<Rightarrow> False)"

section \<open>Arrays and texts\<close>


lemma replicate_update_same: "(replicate n z)[i := z] = replicate n z"
  by (cases "i < n") (simp_all add: list_eq_iff_nth_eq nth_list_update)

lemma take_pad_last:
  assumes "0 < len"
  shows "(take len (cs @ replicate len z))[len - 1 := z]
         = take (len - 1) cs @ replicate (len - length (take (len - 1) cs)) z"
proof (cases "length cs < len")
  case True
  then have "take len (cs @ replicate len z) = cs @ replicate (len - length cs) z"
    by simp
  moreover have "(cs @ replicate (len - length cs) z)[len - 1 := z] = cs @ replicate (len - length cs) z"
    using True assms by (auto simp add: list_update_append replicate_update_same)
  moreover have "take (len - 1) cs = cs" using True by simp
  ultimately show ?thesis by simp
next
  case False
  then have l: "len \<le> length cs" by simp
  then have "take len (cs @ replicate len z) = take len cs" by simp
  moreover have "(take len cs)[len - 1 := z] = take (len - 1) cs @ [z]"
  proof -
    obtain k where k: "len = Suc k" using assms by (cases len) auto
    have "take (Suc k) cs = take k cs @ [cs ! k]"
      using l k by (simp add: take_Suc_conv_app_nth)
    moreover have "length (take k cs) = k" using l k by simp
    ultimately have "(take (Suc k) cs)[k := z] = take k cs @ [z]"
      by (metis list_update_length)
    then show ?thesis using k by simp
  qed
  moreover have "len - length (take (len - 1) cs) = 1" using l assms by simp
  ultimately show ?thesis by simp
qed


lemma holdsD:
  assumes "holds N (b, dp) acc"
  obtains mid where "b = acc @ mid @ [NUL]" "dp = length acc" "length acc + length mid + 1 = N"
    "NUL \<notin> set acc"
proof -
  from assms have h: "dp = length acc" "length b = N" "dp < N" "take dp b = acc"
    "b ! (N - 1) = NUL" "NUL \<notin> set acc"
    by (auto simp: holds_def)
  define mid where "mid = take (N - 1 - dp) (drop dp b)"
  have "drop dp b = mid @ drop (N - 1) b"
    unfolding mid_def using h(2,3)
    by (metis Suc_diff_1 Suc_leI add_diff_cancel_left' append_take_drop_id drop_drop le_add_diff_inverse2 less_imp_Suc_add  add.commute diff_Suc_1 zero_less_Suc)
  moreover have "drop (N - 1) b = [NUL]"
    using h(2,3,5)
    by (metis Cons_nth_drop_Suc One_nat_def append_Nil2 append_eq_conv_conj
    diff_Suc_1' diff_less_Suc diff_zero gr0_conv_Suc h(4)
    less_imp_Suc_add)
  ultimately have "b = acc @ mid @ [NUL]"
    using h(4) by (metis append_take_drop_id)
  moreover have "length acc + length mid + 1 = N"
    using h(1,2,3) by (simp add: mid_def)
  ultimately show ?thesis using that h by blast
qed

lemma holdsI:
  assumes "NUL \<notin> set acc" "length acc + length mid + 1 = N"
  shows "holds N (acc @ mid @ [NUL], length acc) acc"
  using assms by (auto simp: holds_def nth_append)

lemma NUL_notin_cstr: "NUL \<notin> set (cstr s)"
  by (auto simp: cstr_def dest: set_takeWhileD)

lemma strlen_at_shape:
  assumes "NUL \<notin> set s"
  shows "strlen_at (pre @ s @ NUL # rest) (length pre) = Some (length s)"
proof -
  have "takeWhile (\<lambda>c. c \<noteq> NUL) (s @ NUL # rest) = s"
    using assms by (simp add: takeWhile_tail) (metis takeWhile_eq_all_conv)
  then show ?thesis by (simp add: strlen_at_def)
qed

lemma put_char_sim:
  assumes "holds N st acc" "c \<noteq> NUL"
  shows "\<exists>st'. put_char (N - 1) st c = Some st' \<and> holds N st' (text_put_char (N - 1) acc c)"
proof -
  obtain b dp where st: "st = (b, dp)" by (cases st)
  from assms(1) obtain mid where m: "b = acc @ mid @ [NUL]" "dp = length acc"
      "length acc + length mid + 1 = N" "NUL \<notin> set acc"
    unfolding st by (rule holdsD)
  show ?thesis
  proof (cases "dp < N - 1")
    case False
    then show ?thesis using assms(1) m by (simp add: st put_char_def text_put_char_def)
  next
    case True
    then obtain x mid' where mid: "mid = x # mid'" using m by (cases mid) auto
    have "b[dp := c] = (acc @ [c]) @ mid' @ [NUL]"
      by (simp add: m mid)
    moreover have "holds N ((acc @ [c]) @ mid' @ [NUL], length (acc @ [c])) (acc @ [c])"
      by (rule holdsI) (use m mid assms(2) in auto)
    ultimately show ?thesis
      using True m mid by (simp add: st put_char_def text_put_char_def poke_def)
  qed
qed

lemma StrNCpy_shape:
  assumes "0 < length mid"
  shows "StrNCpy (acc @ mid @ [NUL]) (length acc) src (length mid)
         = Some (acc @ take (length mid - 1) (cstr src)
                  @ replicate (length mid - length (take (length mid - 1) (cstr src))) NUL @ [NUL])"
proof -
  let ?len = "length mid"
  let ?X = "take ?len (cstr src @ replicate ?len NUL)"
  have X: "length ?X = ?len" by simp
  have "strncpy (acc @ mid @ [NUL]) (length acc) src ?len = Some (acc @ ?X @ [NUL])"
    by (simp add: strncpy_def)
  moreover have "(acc @ ?X @ [NUL])[length acc + ?len - 1 := NUL] = acc @ ?X[?len - 1 := NUL] @ [NUL]"
  proof -
    have i: "length acc + ?len - 1 = length acc + (?len - 1)" using assms by (cases mid) simp_all
    have j: "?len - 1 < length ?X" using assms by (cases mid) simp_all
    show ?thesis unfolding i using j by (simp only: list_update_append1 list_update_length list_update_append add_diff_cancel_left' not_add_less1 if_False if_True)
  qed
  moreover have "?X[?len - 1 := NUL] = take (?len - 1) (cstr src)
                  @ replicate (?len - length (take (?len - 1) (cstr src))) NUL"
    using assms by (rule take_pad_last)
  ultimately show ?thesis
    using assms by (simp add: StrNCpy_def poke_def)
qed

lemma put_string_sim:
  assumes "holds N st acc"
  shows "\<exists>st'. put_string (N - 1) st src = Some st' \<and> holds N st' (text_put_string (N - 1) acc src)"
proof -
  obtain b dp where st: "st = (b, dp)" by (cases st)
  from assms(1) obtain mid where m: "b = acc @ mid @ [NUL]" "dp = length acc"
      "length acc + length mid + 1 = N" "NUL \<notin> set acc"
    unfolding st by (rule holdsD)
  have len: "N - 1 - dp = length mid" "N - Suc (length acc) = length mid" "N - Suc 0 - length acc = length mid"
    using m by simp_all
  show ?thesis
  proof (cases "mid = []")
    case True
    have "strlen_at (acc @ [] @ NUL # []) (length acc) = Some (length ([]::string))"
      by (rule strlen_at_shape) simp
    then show ?thesis
      using assms m True by (simp add: st put_string_def StrNCpy_def text_put_string_def)
  next
    case False
    define s where "s = take (length mid - 1) (cstr src)"
    define k where "k = length mid - length s - 1"
    have sl: "length s < length mid" using False by (cases mid) (simp_all add: s_def)
    have ns: "NUL \<notin> set s" unfolding s_def using NUL_notin_cstr by (metis in_set_takeD)
    have rep: "replicate (length mid - length s) NUL = NUL # replicate k NUL"
      using sl by (simp add: k_def flip: replicate_Suc)
    have cp: "StrNCpy b dp src (N - 1 - dp) = Some (acc @ s @ NUL # replicate k NUL @ [NUL])"
      using StrNCpy_shape[of mid acc src] False rep by (simp add: len m s_def)
    have sl2: "strlen_at (acc @ s @ NUL # replicate k NUL @ [NUL]) (length acc) = Some (length s)"
      using ns by (rule strlen_at_shape)
    have "holds N ((acc @ s) @ (NUL # replicate k NUL) @ [NUL], length (acc @ s)) (acc @ s)"
      by (rule holdsI) (use m ns sl in \<open>auto simp: k_def\<close>)
    then show ?thesis
      using cp sl2 m by (simp add: st put_string_def text_put_string_def s_def len)
  qed
qed

lemma strlen_at_cstr:
  "strlen_at (pre @ xs @ NUL # rest) (length pre) = Some (length (cstr xs))"
proof -
  have "takeWhile (\<lambda>c. c \<noteq> NUL) (xs @ NUL # rest) = cstr xs"
    by (simp add: takeWhile_tail cstr_def)
  moreover have "length (cstr xs) \<le> length xs"
    by (simp add: cstr_def length_takeWhile_le)
  ultimately show ?thesis by (simp add: strlen_at_def)
qed

lemma put_native_path_sim:
  assumes "holds N st acc"
  shows "\<exists>st'. put_native_path P (N - 1) st src = Some st'
           \<and> holds N st' (text_put_native_path P (N - 1) acc src)"
proof -
  obtain b dp where st: "st = (b, dp)" by (cases st)
  from assms(1) obtain mid where m: "b = acc @ mid @ [NUL]" "dp = length acc"
      "length acc + length mid + 1 = N" "NUL \<notin> set acc"
    unfolding st by (rule holdsD)
  have len: "N - 1 - dp = length mid" "N - Suc (length acc) = length mid" "N - Suc 0 - length acc = length mid"
    using m by simp_all
  show ?thesis
  proof (cases "mid = []")
    case True
    have "strlen_at (acc @ [] @ NUL # []) (length acc) = Some (length (cstr []))"
      by (rule strlen_at_cstr)
    then show ?thesis
      using assms m True
      by (simp add: st put_native_path_def StrNCpy_def text_put_native_path_def
            make_native_path_def cstr_def)
  next
    case False
    define s where "s = take (length mid - 1) (cstr src)"
    define k where "k = length mid - length s - 1"
    define t where "t = cstr (map (native_char P) s)"
    define u where "u = dropWhile (\<lambda>c. c \<noteq> NUL) (map (native_char P) s)"
    have sl: "length s < length mid" using False by (cases mid) (simp_all add: s_def)
    have ns: "NUL \<notin> set s" unfolding s_def using NUL_notin_cstr by (metis in_set_takeD)
    have cs: "cstr s = s" using ns by (simp add: cstr_def) (metis takeWhile_eq_all_conv)
    have tu: "map (native_char P) s = t @ u" by (simp add: t_def u_def cstr_def)
    then have tul: "length t + length u = length s" by (metis length_append length_map)
    have rep: "replicate (length mid - length s) NUL = NUL # replicate k NUL"
      using sl by (simp add: k_def flip: replicate_Suc)
    have cp: "StrNCpy b dp src (length mid) = Some (acc @ s @ NUL # replicate k NUL @ [NUL])"
      using StrNCpy_shape[of mid acc src] False rep by (simp add: m s_def)
    have sl1: "strlen_at (acc @ s @ NUL # replicate k NUL @ [NUL]) (length acc) = Some (length s)"
      using strlen_at_cstr[of acc s "replicate k NUL @ [NUL]"] cs by simp
    have mn: "make_native_path P (acc @ s @ NUL # replicate k NUL @ [NUL]) dp
               = Some (acc @ map (native_char P) s @ NUL # replicate k NUL @ [NUL])"
      using sl1 by (simp add: make_native_path_def m)
    have sl2: "strlen_at (acc @ map (native_char P) s @ NUL # replicate k NUL @ [NUL]) (length acc)
               = Some (length t)"
      unfolding t_def by (rule strlen_at_cstr)
    have "holds N ((acc @ t) @ (u @ NUL # replicate k NUL) @ [NUL], length (acc @ t)) (acc @ t)"
      by (rule holdsI) (use m sl tul NUL_notin_cstr in \<open>auto simp: k_def t_def\<close>)
    then have "holds N (acc @ map (native_char P) s @ NUL # replicate k NUL @ [NUL], length acc + length t) (acc @ t)"
      by (simp add: tu)
    then show ?thesis
      using cp mn sl2 m
      by (simp add: st put_native_path_def text_put_native_path_def s_def len t_def)
  qed
qed

lemma restore_cmd_loop_sim:
  assumes "holds N st acc"
  shows "\<exists>st'. restore_cmd_loop P (N - 1) xp xf lr tmpl st = Some st'
           \<and> holds N st' (restore_cmd_text P (N - 1) xp xf lr tmpl acc)"
  using assms
proof (induction P "N - 1" xp xf lr tmpl acc arbitrary: st rule: restore_cmd_text.induct)
  case (1 P xp xf lr acc)
  then show ?case by simp
next
  case (2 P xp xf lr c cs acc)
  note h = \<open>holds N st acc\<close>
  have pc: "\<And>d. d \<noteq> NUL \<Longrightarrow> \<exists>st'. put_char (N - 1) st d = Some st'
                \<and> holds N st' (text_put_char (N - 1) acc d)"
    using h by (rule put_char_sim)
  have ps: "\<And>src. \<exists>st'. put_string (N - 1) st src = Some st'
                \<and> holds N st' (text_put_string (N - 1) acc src)"
    using h by (rule put_string_sim)
  have pn: "\<exists>st'. put_native_path P (N - 1) st xp = Some st'
                \<and> holds N st' (text_put_native_path P (N - 1) acc xp)"
    using h by (rule put_native_path_sim)
  show ?case
  proof (cases "c = NUL")
    case True
    then show ?thesis using h by simp
  next
    case nz: False
    show ?thesis
    proof (cases "c = CHR ''%''")
      case False
      from pc[OF nz] obtain st1 where s1: "put_char (N - 1) st c = Some st1"
        "holds N st1 (text_put_char (N - 1) acc c)" by blast
      from "2.hyps"(6)[OF nz False s1(2)] s1(1) nz False show ?thesis by simp
    next
      case pct: True
      consider (p) "peek cs = CHR ''p''" | (f) "peek cs = CHR ''f''" | (r) "peek cs = CHR ''r''"
        | (pp) "peek cs = CHR ''%''"
        | (other) "peek cs \<noteq> CHR ''p''" "peek cs \<noteq> CHR ''f''" "peek cs \<noteq> CHR ''r''" "peek cs \<noteq> CHR ''%''"
        by blast
      then show ?thesis
      proof cases
        case p
        from pn obtain st1 where s1: "put_native_path P (N - 1) st xp = Some st1"
          "holds N st1 (text_put_native_path P (N - 1) acc xp)" by blast
        from "2.hyps"(1)[OF nz pct p s1(2)] s1(1) nz pct p show ?thesis by simp
      next
        case f
        from ps obtain st1 where s1: "put_string (N - 1) st xf = Some st1"
          "holds N st1 (text_put_string (N - 1) acc xf)" by blast
        from "2.hyps"(2)[OF nz pct _ f s1(2)] s1(1) nz pct f show ?thesis by simp
      next
        case r
        from ps obtain st1 where s1: "put_string (N - 1) st lr = Some st1"
          "holds N st1 (text_put_string (N - 1) acc lr)" by blast
        from "2.hyps"(3)[OF nz pct _ _ r s1(2)] s1(1) nz pct r show ?thesis by simp
      next
        case pp
        have "CHR ''%'' \<noteq> NUL" by (simp add: NUL_def)
        from pc[OF this] obtain st1 where s1: "put_char (N - 1) st (CHR ''%'') = Some st1"
          "holds N st1 (text_put_char (N - 1) acc (CHR ''%''))" by blast
        from "2.hyps"(4)[OF nz pct _ _ _ pp s1(2)] s1(1) nz pct pp show ?thesis by simp
      next
        case other
        from pc[OF nz] obtain st1 where s1: "put_char (N - 1) st c = Some st1"
          "holds N st1 (text_put_char (N - 1) acc c)" by blast
        from "2.hyps"(5)[OF nz pct other s1(2)] s1(1) nz pct other show ?thesis by simp
      qed
    qed
  qed
qed

lemma recovery_cmd_loop_sim:
  assumes "holds N st acc"
  shows "\<exists>st'. recovery_cmd_loop (N - 1) lr tmpl st = Some st'
           \<and> holds N st' (recovery_cmd_text (N - 1) lr tmpl acc)"
  using assms
proof (induction "N - 1" lr tmpl acc arbitrary: st rule: recovery_cmd_text.induct)
  case (1 lr acc)
  then show ?case by simp
next
  case (2 lr c cs acc)
  note h = \<open>holds N st acc\<close>
  have pc: "\<And>d. d \<noteq> NUL \<Longrightarrow> \<exists>st'. put_char (N - 1) st d = Some st'
                \<and> holds N st' (text_put_char (N - 1) acc d)"
    using h by (rule put_char_sim)
  have ps: "\<And>src. \<exists>st'. put_string (N - 1) st src = Some st'
                \<and> holds N st' (text_put_string (N - 1) acc src)"
    using h by (rule put_string_sim)
  show ?case
  proof (cases "c = NUL")
    case True
    then show ?thesis using h by simp
  next
    case nz: False
    show ?thesis
    proof (cases "c = CHR ''%''")
      case False
      from pc[OF nz] obtain st1 where s1: "put_char (N - 1) st c = Some st1"
        "holds N st1 (text_put_char (N - 1) acc c)" by blast
      from "2.hyps"(4)[OF nz False s1(2)] s1(1) nz False show ?thesis by simp
    next
      case pct: True
      consider (r) "peek cs = CHR ''r''" | (pp) "peek cs = CHR ''%''"
        | (other) "peek cs \<noteq> CHR ''r''" "peek cs \<noteq> CHR ''%''"
        by blast
      then show ?thesis
      proof cases
        case r
        from ps obtain st1 where s1: "put_string (N - 1) st lr = Some st1"
          "holds N st1 (text_put_string (N - 1) acc lr)" by blast
        from "2.hyps"(1)[OF nz pct r s1(2)] s1(1) nz pct r show ?thesis by simp
      next
        case pp
        have "CHR ''%'' \<noteq> NUL" by (simp add: NUL_def)
        from pc[OF this] obtain st1 where s1: "put_char (N - 1) st (CHR ''%'') = Some st1"
          "holds N st1 (text_put_char (N - 1) acc (CHR ''%''))" by blast
        from "2.hyps"(2)[OF nz pct _ pp s1(2)] s1(1) nz pct pp show ?thesis by simp
      next
        case other
        from pc[OF nz] obtain st1 where s1: "put_char (N - 1) st c = Some st1"
          "holds N st1 (text_put_char (N - 1) acc c)" by blast
        from "2.hyps"(3)[OF nz pct other s1(2)] s1(1) nz pct other show ?thesis by simp
      qed
    qed
  qed
qed

lemma holds_start:
  assumes "0 < N"
  shows "poke (uninitialised N junk) (N - 1) NUL = Some ((uninitialised N junk)[N - 1 := NUL])"
    and "holds N ((uninitialised N junk)[N - 1 := NUL], 0) []"
  using assms by (simp_all add: poke_def uninitialised_def holds_def)

lemma close_string:
  assumes "holds N (b, dp) acc"
  shows "\<exists>b3. poke b dp NUL = Some b3 \<and> strlen_at b3 0 = Some (length acc)
           \<and> take (length acc) b3 = acc"
proof -
  from assms obtain mid where m: "b = acc @ mid @ [NUL]" "dp = length acc"
      "length acc + length mid + 1 = N" "NUL \<notin> set acc"
    by (rule holdsD)
  obtain x rest where xr: "mid @ [NUL] = x # rest" by (cases mid) auto
  have b3: "b[dp := NUL] = acc @ NUL # rest"
    using m(1,2) xr by simp
  have "cstr acc = acc" using m(4) by (simp add: cstr_def) (metis takeWhile_eq_all_conv)
  then have "strlen_at ([] @ acc @ NUL # rest) (length ([]::string)) = Some (length acc)"
    using strlen_at_cstr[of "[]" acc rest] by simp
  then show ?thesis
    using b3 m by (simp add: poke_def)
qed

lemma build_restore_cmd_text:
  assumes "0 < MAXPGPATH P"
  shows "build_restore_cmd P junk tmpl xp xf lr
         = Some (restore_cmd_text P (MAXPGPATH P - 1) xp xf lr tmpl [])"
proof -
  let ?N = "MAXPGPATH P"
  let ?b1 = "(uninitialised ?N junk)[?N - 1 := NUL]"
  from restore_cmd_loop_sim[OF holds_start(2)[OF assms]]
  obtain b2 dp where l: "restore_cmd_loop P (?N - 1) xp xf lr tmpl (?b1, 0) = Some (b2, dp)"
    "holds ?N (b2, dp) (restore_cmd_text P (?N - 1) xp xf lr tmpl [])"
    by (metis surj_pair)
  from close_string[OF l(2)] obtain b3 where c: "poke b2 dp NUL = Some b3"
    "strlen_at b3 0 = Some (length (restore_cmd_text P (?N - 1) xp xf lr tmpl []))"
    "take (length (restore_cmd_text P (?N - 1) xp xf lr tmpl [])) b3
       = restore_cmd_text P (?N - 1) xp xf lr tmpl []"
    by blast
  show ?thesis
    using assms holds_start(1)[OF assms] l(1) c
    by (simp add: build_restore_cmd_def)
qed

lemma build_recovery_cmd_text:
  assumes "0 < MAXPGPATH P"
  shows "build_recovery_cmd P junk tmpl lr
         = Some (recovery_cmd_text (MAXPGPATH P - 1) lr tmpl [])"
proof -
  let ?N = "MAXPGPATH P"
  let ?b1 = "(uninitialised ?N junk)[?N - 1 := NUL]"
  from recovery_cmd_loop_sim[OF holds_start(2)[OF assms]]
  obtain b2 dp where l: "recovery_cmd_loop (?N - 1) lr tmpl (?b1, 0) = Some (b2, dp)"
    "holds ?N (b2, dp) (recovery_cmd_text (?N - 1) lr tmpl [])"
    by (metis surj_pair)
  from close_string[OF l(2)] obtain b3 where c: "poke b2 dp NUL = Some b3"
    "strlen_at b3 0 = Some (length (recovery_cmd_text (?N - 1) lr tmpl []))"
    "take (length (recovery_cmd_text (?N - 1) lr tmpl [])) b3
       = recovery_cmd_text (?N - 1) lr tmpl []"
    by blast
  show ?thesis
    using assms holds_start(1)[OF assms] l(1) c
    by (simp add: build_recovery_cmd_def)
qed

section \<open>The texts of the two loops and the expansion of the specification\<close>


lemma cstr_Cons: "cstr (c # cs) = (if c = NUL then [] else c # cstr cs)"
  by (simp add: cstr_def)

lemma expand_template_plain:
  "c \<noteq> CHR ''%'' \<Longrightarrow> expand_template tbl (c # xs) = c # expand_template tbl xs"
  by (cases xs) simp_all

lemma cstr_take: "cstr (take k xs) = take k (cstr xs)"
  unfolding cstr_def by (induction xs arbitrary: k) (auto simp: take_Cons split: nat.splits)

lemma cstr_map_take: "cstr (map f (take k xs)) = take k (cstr (map f xs))"
  by (simp add: cstr_take flip: take_map)

lemma peek_Cons: "peek (d # cs) = d" and peek_Nil: "peek [] = NUL"
  by (simp_all add: peek_def)

lemma chars_not_NUL:
  "CHR ''%'' \<noteq> NUL" "CHR ''p'' \<noteq> NUL" "CHR ''f'' \<noteq> NUL" "CHR ''r'' \<noteq> NUL"
  "NUL \<noteq> CHR ''%''" "NUL \<noteq> CHR ''p''" "NUL \<noteq> CHR ''f''" "NUL \<noteq> CHR ''r''"
  by (simp_all add: NUL_def)

text \<open>One step of a template that starts with a percent sign, by what follows it.\<close>

lemma restore_cmd_text_fits:
  "length acc + length (expand_template (restore_placeholders P xp xf lr) (cstr tmpl)) < cap
   \<Longrightarrow> restore_cmd_text P cap xp xf lr tmpl acc
       = acc @ expand_template (restore_placeholders P xp xf lr) (cstr tmpl)"
proof (induction P cap xp xf lr tmpl acc rule: restore_cmd_text.induct)
  case (1 P cap xp xf lr acc)
  then show ?case by (simp add: cstr_def)
next
  case (2 P cap xp xf lr c cs acc)
  let ?E = "expand_template (restore_placeholders P xp xf lr)"
  note fit = "2.prems"
  show ?case
  proof (cases "c = NUL")
    case True
    then show ?thesis by (simp add: cstr_Cons)
  next
    case nz: False
    show ?thesis
    proof (cases "c = CHR ''%''")
      case False
      have e: "?E (cstr (c # cs)) = c # ?E (cstr cs)"
        using nz False by (simp add: cstr_Cons expand_template_plain)
      have "restore_cmd_text P cap xp xf lr cs (text_put_char cap acc c)
            = text_put_char cap acc c @ ?E (cstr cs)"
        using fit e by (intro "2.IH"(6)[OF nz False]) (simp add: text_put_char_def)
      then show ?thesis using nz False e fit by (simp add: text_put_char_def)
    next
      case pct: True
      show ?thesis
      proof (cases cs)
        case Nil
        then show ?thesis using pct nz fit
          by (simp add: peek_Nil chars_not_NUL cstr_Cons text_put_char_def cstr_def)
      next
        case (Cons d ds)
        consider (z) "d = NUL" | (p) "d = CHR ''p''" | (f) "d = CHR ''f''" | (r) "d = CHR ''r''"
          | (pp) "d = CHR ''%''"
          | (other) "d \<noteq> NUL" "d \<noteq> CHR ''p''" "d \<noteq> CHR ''f''" "d \<noteq> CHR ''r''" "d \<noteq> CHR ''%''"
          by blast
        then show ?thesis
        proof cases
          case z
          then show ?thesis using pct nz fit Cons
            by (simp add: peek_Cons chars_not_NUL cstr_Cons text_put_char_def)
        next
          case p
          let ?v = "cstr (map (native_char P) (cstr xp))"
          have e: "?E (cstr (c # cs)) = ?v @ ?E (cstr ds)"
            using pct p Cons by (simp add: cstr_Cons chars_not_NUL restore_placeholders_def)
          have k: "length ?v \<le> cap - length acc - 1" using fit e by simp
          have a: "text_put_native_path P cap acc xp = acc @ ?v"
            using k by (simp add: text_put_native_path_def cstr_map_take)
          have "restore_cmd_text P cap xp xf lr (tl cs) (text_put_native_path P cap acc xp)
                = text_put_native_path P cap acc xp @ ?E (cstr (tl cs))"
            using fit e a Cons p by (intro "2.IH"(1)[OF nz pct]) (simp_all add: peek_Cons)
          then show ?thesis using nz pct p Cons e a by (simp add: peek_Cons)
        next
          case f
          let ?v = "cstr xf"
          have e: "?E (cstr (c # cs)) = ?v @ ?E (cstr ds)"
            using pct f Cons by (simp add: cstr_Cons chars_not_NUL restore_placeholders_def)
          have k: "length ?v \<le> cap - length acc - 1" using fit e by simp
          have a: "text_put_string cap acc xf = acc @ ?v"
            using k by (simp add: text_put_string_def)
          have "restore_cmd_text P cap xp xf lr (tl cs) (text_put_string cap acc xf)
                = text_put_string cap acc xf @ ?E (cstr (tl cs))"
            using fit e a Cons f by (intro "2.IH"(2)[OF nz pct]) (simp_all add: peek_Cons)
          then show ?thesis using nz pct f Cons e a by (simp add: peek_Cons)
        next
          case r
          let ?v = "cstr lr"
          have e: "?E (cstr (c # cs)) = ?v @ ?E (cstr ds)"
            using pct r Cons by (simp add: cstr_Cons chars_not_NUL restore_placeholders_def)
          have k: "length ?v \<le> cap - length acc - 1" using fit e by simp
          have a: "text_put_string cap acc lr = acc @ ?v"
            using k by (simp add: text_put_string_def)
          have "restore_cmd_text P cap xp xf lr (tl cs) (text_put_string cap acc lr)
                = text_put_string cap acc lr @ ?E (cstr (tl cs))"
            using fit e a Cons r by (intro "2.IH"(3)[OF nz pct]) (simp_all add: peek_Cons)
          then show ?thesis using nz pct r Cons e a by (simp add: peek_Cons)
        next
          case pp
          have e: "?E (cstr (c # cs)) = CHR ''%'' # ?E (cstr ds)"
            using pct pp Cons by (simp add: cstr_Cons chars_not_NUL)
          have a: "text_put_char cap acc (CHR ''%'') = acc @ [CHR ''%'']"
            using fit e by (simp add: text_put_char_def)
          have "restore_cmd_text P cap xp xf lr (tl cs) (text_put_char cap acc (CHR ''%''))
                = text_put_char cap acc (CHR ''%'') @ ?E (cstr (tl cs))"
            using fit e a Cons pp by (intro "2.IH"(4)[OF nz pct]) (simp_all add: peek_Cons)
          then show ?thesis using nz pct pp Cons e a by (simp add: peek_Cons)
        next
          case other
          have t: "restore_placeholders P xp xf lr d = None"
            using other by (simp add: restore_placeholders_def)
          have e: "?E (cstr (c # cs)) = CHR ''%'' # d # ?E (cstr ds)"
            using pct other Cons t by (simp add: cstr_Cons chars_not_NUL)
          have e2: "?E (cstr cs) = d # ?E (cstr ds)"
            using other Cons by (simp add: cstr_Cons expand_template_plain)
          have a: "text_put_char cap acc c = acc @ [CHR ''%'']"
            using fit e pct by (simp add: text_put_char_def)
          have "restore_cmd_text P cap xp xf lr cs (text_put_char cap acc c)
                = text_put_char cap acc c @ ?E (cstr cs)"
            using fit e e2 a Cons other by (intro "2.IH"(5)[OF nz pct]) (simp_all add: peek_Cons)
          then show ?thesis using nz pct other Cons e e2 a by (simp add: peek_Cons)
        qed
      qed
    qed
  qed
qed

lemma restore_expand_step:
  assumes "c \<noteq> NUL"
  shows "expand_template (restore_placeholders P xp xf lr) (cstr (c # cs)) =
     (if c = CHR ''%'' then
        (if peek cs = CHR ''p'' then
           cstr (map (native_char P) (cstr xp))
             @ expand_template (restore_placeholders P xp xf lr) (cstr (tl cs))
         else if peek cs = CHR ''f'' then
           cstr xf @ expand_template (restore_placeholders P xp xf lr) (cstr (tl cs))
         else if peek cs = CHR ''r'' then
           cstr lr @ expand_template (restore_placeholders P xp xf lr) (cstr (tl cs))
         else if peek cs = CHR ''%'' then
           [CHR ''%''] @ expand_template (restore_placeholders P xp xf lr) (cstr (tl cs))
         else [c] @ expand_template (restore_placeholders P xp xf lr) (cstr cs))
      else [c] @ expand_template (restore_placeholders P xp xf lr) (cstr cs))"
proof (cases cs)
  case Nil
  then show ?thesis using assms
    by (simp add: peek_Nil chars_not_NUL cstr_Cons cstr_def expand_template_plain)
next
  case (Cons d ds)
  show ?thesis
  proof (cases "d = NUL")
    case True
    then show ?thesis using assms Cons
      by (simp add: peek_Cons chars_not_NUL cstr_Cons expand_template_plain)
  next
    case False
    then show ?thesis using assms Cons
      by (simp add: peek_Cons chars_not_NUL cstr_Cons expand_template_plain
            restore_placeholders_def)
  qed
qed

lemma recovery_expand_step:
  assumes "c \<noteq> NUL"
  shows "expand_template (recovery_placeholders lr) (cstr (c # cs)) =
     (if c = CHR ''%'' then
        (if peek cs = CHR ''r'' then
           cstr lr @ expand_template (recovery_placeholders lr) (cstr (tl cs))
         else if peek cs = CHR ''%'' then
           [CHR ''%''] @ expand_template (recovery_placeholders lr) (cstr (tl cs))
         else [c] @ expand_template (recovery_placeholders lr) (cstr cs))
      else [c] @ expand_template (recovery_placeholders lr) (cstr cs))"
proof (cases cs)
  case Nil
  then show ?thesis using assms
    by (simp add: peek_Nil chars_not_NUL cstr_Cons cstr_def expand_template_plain)
next
  case (Cons d ds)
  show ?thesis
  proof (cases "d = NUL")
    case True
    then show ?thesis using assms Cons
      by (simp add: peek_Cons chars_not_NUL cstr_Cons expand_template_plain)
  next
    case False
    then show ?thesis using assms Cons
      by (simp add: peek_Cons chars_not_NUL cstr_Cons expand_template_plain
            recovery_placeholders_def)
  qed
qed

lemma text_put_char_fits:
  "length acc + length ([c] @ rest) < cap \<Longrightarrow> text_put_char cap acc c = acc @ [c]"
  by (simp add: text_put_char_def)

lemma text_put_string_fits:
  "length acc + length (cstr src @ rest) < cap \<Longrightarrow> text_put_string cap acc src = acc @ cstr src"
  by (simp add: text_put_string_def)

lemma recovery_cmd_text_fits:
  "length acc + length (expand_template (recovery_placeholders lr) (cstr tmpl)) < cap
   \<Longrightarrow> recovery_cmd_text cap lr tmpl acc
       = acc @ expand_template (recovery_placeholders lr) (cstr tmpl)"
proof (induction cap lr tmpl acc rule: recovery_cmd_text.induct)
  case (1 cap lr acc)
  then show ?case by (simp add: cstr_def)
next
  case (2 cap lr c cs acc)
  let ?E = "expand_template (recovery_placeholders lr)"
  note fit = "2.prems"
  show ?case
  proof (cases "c = NUL")
    case True
    then show ?thesis by (simp add: cstr_Cons)
  next
    case nz: False
    note step = recovery_expand_step[OF nz, of lr cs]
    consider (plain) "c \<noteq> CHR ''%''"
      | (r) "c = CHR ''%''" "peek cs = CHR ''r''"
      | (pp) "c = CHR ''%''" "peek cs \<noteq> CHR ''r''" "peek cs = CHR ''%''"
      | (other) "c = CHR ''%''" "peek cs \<noteq> CHR ''r''" "peek cs \<noteq> CHR ''%''"
      by blast
    then show ?thesis
    proof cases
      case plain
      have e: "?E (cstr (c # cs)) = [c] @ ?E (cstr cs)" using step plain by simp
      have a: "text_put_char cap acc c = acc @ [c]"
        using fit unfolding e by (rule text_put_char_fits)
      have "recovery_cmd_text cap lr cs (text_put_char cap acc c)
            = text_put_char cap acc c @ ?E (cstr cs)"
        using fit e a by (intro "2.IH"(4)[OF nz plain]) simp
      then show ?thesis using nz plain e a by simp
    next
      case r
      have e: "?E (cstr (c # cs)) = cstr lr @ ?E (cstr (tl cs))" using step r by simp
      have a: "text_put_string cap acc lr = acc @ cstr lr"
        using fit unfolding e by (rule text_put_string_fits)
      have "recovery_cmd_text cap lr (tl cs) (text_put_string cap acc lr)
            = text_put_string cap acc lr @ ?E (cstr (tl cs))"
        using fit e a by (intro "2.IH"(1)[OF nz r]) simp
      then show ?thesis using nz r e a by simp
    next
      case pp
      have e: "?E (cstr (c # cs)) = [CHR ''%''] @ ?E (cstr (tl cs))" using step pp by simp
      have a: "text_put_char cap acc (CHR ''%'') = acc @ [CHR ''%'']"
        using fit unfolding e by (rule text_put_char_fits)
      have "recovery_cmd_text cap lr (tl cs) (text_put_char cap acc (CHR ''%''))
            = text_put_char cap acc (CHR ''%'') @ ?E (cstr (tl cs))"
        using fit e a by (intro "2.IH"(2)[OF nz pp]) simp
      then show ?thesis using nz pp e a by simp
    next
      case other
      have e: "?E (cstr (c # cs)) = [c] @ ?E (cstr cs)" using step other by simp
      have a: "text_put_char cap acc c = acc @ [c]"
        using fit unfolding e by (rule text_put_char_fits)
      have "recovery_cmd_text cap lr cs (text_put_char cap acc c)
            = text_put_char cap acc c @ ?E (cstr cs)"
        using fit e a by (intro "2.IH"(3)[OF nz other]) simp
      then show ?thesis using nz other e a by simp
    qed
  qed
qed

lemma text_put_char_subseq:
  "\<exists>piece. text_put_char cap acc c = acc @ piece \<and> subseq piece [c]"
  by (simp add: text_put_char_def)

lemma text_put_string_subseq:
  "\<exists>piece. text_put_string cap acc src = acc @ piece \<and> subseq piece (cstr src)"
  by (auto simp: text_put_string_def intro!: prefix_imp_subseq take_is_prefix)

lemma text_put_native_path_subseq:
  "\<exists>piece. text_put_native_path P cap acc src = acc @ piece
       \<and> subseq piece (cstr (map (native_char P) (cstr src)))"
  by (auto simp: text_put_native_path_def cstr_map_take intro!: prefix_imp_subseq take_is_prefix)

lemma subseq_step:
  assumes "acc1 = acc @ piece" "subseq piece full"
    and "\<exists>ys. res = acc1 @ ys \<and> subseq ys rest"
  shows "\<exists>ys. res = acc @ ys \<and> subseq ys (full @ rest)"
proof -
  from assms(3) obtain ys where "res = acc1 @ ys" "subseq ys rest" by blast
  then have "res = acc @ (piece @ ys)" "subseq (piece @ ys) (full @ rest)"
    using assms(1,2) by (simp_all add: list_emb_append_mono)
  then show ?thesis by blast
qed

lemma restore_cmd_text_subseq:
  "\<exists>ys. restore_cmd_text P cap xp xf lr tmpl acc = acc @ ys
      \<and> subseq ys (expand_template (restore_placeholders P xp xf lr) (cstr tmpl))"
proof (induction P cap xp xf lr tmpl acc rule: restore_cmd_text.induct)
  case (1 P cap xp xf lr acc)
  then show ?case by (simp add: cstr_def)
next
  case (2 P cap xp xf lr c cs acc)
  let ?E = "expand_template (restore_placeholders P xp xf lr)"
  show ?case
  proof (cases "c = NUL")
    case True
    then show ?thesis by (simp add: cstr_Cons)
  next
    case nz: False
    note step = restore_expand_step[OF nz, of P xp xf lr cs]
    consider (plain) "c \<noteq> CHR ''%''"
      | (p) "c = CHR ''%''" "peek cs = CHR ''p''"
      | (f) "c = CHR ''%''" "peek cs \<noteq> CHR ''p''" "peek cs = CHR ''f''"
      | (r) "c = CHR ''%''" "peek cs \<noteq> CHR ''p''" "peek cs \<noteq> CHR ''f''" "peek cs = CHR ''r''"
      | (pp) "c = CHR ''%''" "peek cs \<noteq> CHR ''p''" "peek cs \<noteq> CHR ''f''" "peek cs \<noteq> CHR ''r''"
          "peek cs = CHR ''%''"
      | (other) "c = CHR ''%''" "peek cs \<noteq> CHR ''p''" "peek cs \<noteq> CHR ''f''"
          "peek cs \<noteq> CHR ''r''" "peek cs \<noteq> CHR ''%''"
      by blast
    then show ?thesis
    proof cases
      case plain
      obtain piece where a: "text_put_char cap acc c = acc @ piece" "subseq piece [c]"
        using text_put_char_subseq by blast
      from subseq_step[OF a "2.IH"(6)[OF nz plain]] step nz plain show ?thesis by simp
    next
      case p
      obtain piece where a: "text_put_native_path P cap acc xp = acc @ piece"
        "subseq piece (cstr (map (native_char P) (cstr xp)))"
        using text_put_native_path_subseq by blast
      from subseq_step[OF a "2.IH"(1)[OF nz p]] step nz p show ?thesis by simp
    next
      case f
      obtain piece where a: "text_put_string cap acc xf = acc @ piece" "subseq piece (cstr xf)"
        using text_put_string_subseq by blast
      from subseq_step[OF a "2.IH"(2)[OF nz f]] step nz f show ?thesis by simp
    next
      case r
      obtain piece where a: "text_put_string cap acc lr = acc @ piece" "subseq piece (cstr lr)"
        using text_put_string_subseq by blast
      from subseq_step[OF a "2.IH"(3)[OF nz r]] step nz r show ?thesis by simp
    next
      case pp
      obtain piece where a: "text_put_char cap acc (CHR ''%'') = acc @ piece"
        "subseq piece [CHR ''%'']"
        using text_put_char_subseq by blast
      from subseq_step[OF a "2.IH"(4)[OF nz pp]] step nz pp show ?thesis by simp
    next
      case other
      obtain piece where a: "text_put_char cap acc c = acc @ piece" "subseq piece [c]"
        using text_put_char_subseq by blast
      from subseq_step[OF a "2.IH"(5)[OF nz other]] step nz other show ?thesis by simp
    qed
  qed
qed

lemma restore_cmd_text_plain_run:
  assumes "c \<noteq> NUL" "c \<noteq> CHR ''%''"
  shows "length acc + n \<le> cap \<Longrightarrow>
         restore_cmd_text P cap xp xf lr (replicate n c @ rest) acc
         = restore_cmd_text P cap xp xf lr rest (acc @ replicate n c)"
proof (induction n arbitrary: acc)
  case 0
  then show ?case by simp
next
  case (Suc n)
  have "text_put_char cap acc c = acc @ [c]" using Suc.prems by (simp add: text_put_char_def)
  moreover have "restore_cmd_text P cap xp xf lr (replicate n c @ rest) (acc @ [c])
        = restore_cmd_text P cap xp xf lr rest ((acc @ [c]) @ replicate n c)"
    using Suc.prems by (intro Suc.IH) simp
  ultimately show ?case using assms by (simp add: replicate_app_Cons_same)
qed

lemma build_restore_cmd_junk:
  "build_restore_cmd P junk1 t xp xf lr = build_restore_cmd P junk2 t xp xf lr"
proof (cases "0 < MAXPGPATH P")
  case True
  then show ?thesis by (simp add: build_restore_cmd_text)
next
  case False
  then show ?thesis by (simp add: build_restore_cmd_def)
qed

lemma build_recovery_cmd_junk:
  "build_recovery_cmd P junk1 t lr = build_recovery_cmd P junk2 t lr"
proof (cases "0 < MAXPGPATH P")
  case True
  then show ?thesis by (simp add: build_recovery_cmd_text)
next
  case False
  then show ?thesis by (simp add: build_recovery_cmd_def)
qed

lemma cstr_plain [simp]: "cstr [] = []" "c \<noteq> NUL \<Longrightarrow> cstr (c # cs) = c # cstr cs"
  by (simp_all add: cstr_def)

section \<open>File names and the run of the restore command\<close>


lemma upt_0_8: "[0..<8] = [0, 1, 2, 3, 4, 5, 6, 7::nat]"
  by code_simp

lemma hex8_0: "hex8 0 = ''00000000''"
  by (simp add: hex8_def hex_digit_def upt_0_8)

lemma XLogFileName_0_0: "XLogFileName P 0 0 = ''000000000000000000000000''"
  by (simp add: XLogFileName_def hex8_0)

lemma hex_digit_range: "48 \<le> (of_char (hex_digit d) :: nat) \<and> hex_digit d \<noteq> NUL"
proof -
  have u: "[0..<16] = [0, 1, 2, 3, 4, 5, 6, 7, 8, 9, 10, 11, 12, 13, 14, 15::nat]"
    by code_simp
  have "d mod 16 \<in> set [0..<16]" by simp
  then have "d mod 16 \<in> {0, 1, 2, 3, 4, 5, 6, 7, 8, 9, 10, 11, 12, 13, 14, 15}"
    unfolding u by simp
  then show ?thesis
    unfolding hex_digit_def NUL_def by (elim insertE emptyE) simp_all
qed

lemma hex8_chars:
  "length (hex8 v) = 8" "\<forall>c \<in> set (hex8 v). 48 \<le> (of_char c :: nat) \<and> c \<noteq> NUL"
  by (auto simp: hex8_def hex_digit_range)

lemma XLogFileName_chars:
  "length (XLogFileName P tli segno) = 24"
  "\<forall>c \<in> set (XLogFileName P tli segno). 48 \<le> (of_char c :: nat) \<and> c \<noteq> NUL"
  using hex8_chars by (auto simp: XLogFileName_def)

lemma cstr_id: "NUL \<notin> set s \<Longrightarrow> cstr s = s"
  by (auto simp: cstr_def)

lemma strcmp_chars_least:
  assumes "\<forall>c \<in> set ys. (of_char z :: nat) \<le> of_char c" "n \<le> length ys"
  shows "strcmp_chars (replicate n z) ys \<le> 0"
  using assms
proof (induction n arbitrary: ys)
  case 0
  then show ?case by (cases ys) simp_all
next
  case (Suc n)
  then obtain y ys' where ys: "ys = y # ys'" by (cases ys) auto
  with Suc.prems have "strcmp_chars (replicate n z) ys' \<le> 0"
    by (intro Suc.IH) auto
  with Suc.prems ys show ?case by auto
qed

lemma XLogFileName_least:
  "strcmp (XLogFileName P 0 0) (XLogFileName P tli segno) \<le> 0"
proof -
  have z: "XLogFileName P 0 0 = replicate 24 (CHR ''0'')"
    by (simp add: XLogFileName_0_0 numeral_eq_Suc)
  have "NUL \<notin> set (XLogFileName P tli segno)" "NUL \<notin> set (XLogFileName P 0 0)"
    using XLogFileName_chars(2) by blast+
  then have c: "cstr (XLogFileName P tli segno) = XLogFileName P tli segno"
    "cstr (XLogFileName P 0 0) = XLogFileName P 0 0"
    by (simp_all add: cstr_id)
  have "strcmp_chars (replicate 24 (CHR ''0'')) (XLogFileName P tli segno) \<le> 0"
    by (rule strcmp_chars_least) (use XLogFileName_chars[of P tli segno] in auto)
  then show ?thesis using c z by (simp add: strcmp_def)
qed

text \<open>The examples: the Linux platform, a restore command and a cleanup command.\<close>


lemma linux_fields:
  "MAXPGPATH linux = 1024" "XLOGDIR linux = ''pg_xlog''" "XLogSegSize linux = 16777216"
  "native_char linux = (\<lambda>c. c)" "USE_ASSERT_CHECKING linux = True" "SIGTERM linux = 15"
  "WIFSIGNALED linux s = (s mod 128 \<noteq> 0 \<and> s mod 128 \<noteq> 127)"
  "WTERMSIG linux s = s mod 128" "WEXITSTATUS linux s = (s div 256) mod 256"
  by (simp_all add: linux_def)

lemma example_oses:
  "os_stat quiet t p = StatFail ENOENT" "os_system quiet t c = 0"
  "os_restart_point quiet t = (33554432, 1)"
  "os_stat (restored n) t p = (if t = 0 then StatFail ENOENT else StatOk n)"
  "os_system (restored n) t c = 0"
  "os_stat (failing rc) t p = StatFail ENOENT" "os_system (failing rc) t c = rc"
  "os_restart_point (failing rc) t = (33554432, 1)"
  by (simp_all add: quiet_def restored_def failing_def)

lemma example_paths:
  "snprintf_s (MAXPGPATH linux) (XLOGDIR linux @ ''/'') ''RECOVERYXLOG'' = ''pg_xlog/RECOVERYXLOG''"
  "snprintf_s (MAXPGPATH linux) (XLOGDIR linux @ ''/'') ''000000010000000000000002''
     = ''pg_xlog/000000010000000000000002''"
  by (simp_all add: snprintf_s_def linux_fields NUL_def)

lemma example_restore_cmd:
  "build_restore_cmd linux stale ''cp /mnt/archive/%f %p'' ''pg_xlog/RECOVERYXLOG''
     ''000000010000000000000002'' lr
   = Some ''cp /mnt/archive/000000010000000000000002 pg_xlog/RECOVERYXLOG''"
proof -
  have p: "0 < MAXPGPATH linux" by (simp add: linux_fields)
  have e: "expand_template
             (restore_placeholders linux ''pg_xlog/RECOVERYXLOG'' ''000000010000000000000002'' lr)
             (cstr ''cp /mnt/archive/%f %p'')
           = ''cp /mnt/archive/000000010000000000000002 pg_xlog/RECOVERYXLOG''"
    by (simp add: restore_placeholders_def linux_fields NUL_def)
  have "length ([]::string) + length (expand_template
             (restore_placeholders linux ''pg_xlog/RECOVERYXLOG'' ''000000010000000000000002'' lr)
             (cstr ''cp /mnt/archive/%f %p'')) < MAXPGPATH linux - 1"
    unfolding e by (simp add: linux_fields)
  from restore_cmd_text_fits[OF this] e show ?thesis
    by (simp add: build_restore_cmd_text[OF p])
qed

lemma example_run:
  assumes "os_stat E 0 ''pg_xlog/RECOVERYXLOG'' = StatFail ENOENT"
  shows "run_restore_command linux E stale ''cp /mnt/archive/%f %p''
           ''000000010000000000000002'' ''RECOVERYXLOG'' False []
         = Inr (os_system E 3 ''cp /mnt/archive/000000010000000000000002 pg_xlog/RECOVERYXLOG'',
                [EStat ''pg_xlog/RECOVERYXLOG'' (StatFail ENOENT),
                 EReport DEBUG3 ''executing restore command \"%s\"'', EPreRestoreCommand,
                 ESystem ''cp /mnt/archive/000000010000000000000002 pg_xlog/RECOVERYXLOG''
                   (os_system E 3
                      ''cp /mnt/archive/000000010000000000000002 pg_xlog/RECOVERYXLOG''),
                 EPostRestoreCommand])"
  using assms
  by (simp add: run_restore_command_def example_paths remove_existing_def cutoff_fname_def
        example_restore_cmd Let_def ereport_def numeral_3_eq_3)

lemma example_restart_fname:
  "XLogFileName linux 1 (XLByteToSeg linux 33554432) = ''000000010000000000000002''"
  "XLogFileName linux (Suc 0) (XLByteToSeg linux 33554432) = ''000000010000000000000002''"
  by (simp_all add: XLogFileName_def XLByteToSeg_def XLogSegmentsPerXLogId_def linux_fields
        hex8_def hex_digit_def upt_0_8)

lemma example_recovery_start:
  "oldest_restart_fname linux (failing rc) []
   = (''000000010000000000000002'', [EGetOldestRestartPoint 33554432 1])"
  by (simp add: oldest_restart_fname_def example_oses example_restart_fname)

lemma example_recovery_cmd:
  "build_recovery_cmd linux stale ''pg_archivecleanup /mnt/archive %r''
     ''000000010000000000000002''
   = Some ''pg_archivecleanup /mnt/archive 000000010000000000000002''"
proof -
  have p: "0 < MAXPGPATH linux" by (simp add: linux_fields)
  have e: "expand_template (recovery_placeholders ''000000010000000000000002'')
             (cstr ''pg_archivecleanup /mnt/archive %r'')
           = ''pg_archivecleanup /mnt/archive 000000010000000000000002''"
    by (simp add: recovery_placeholders_def NUL_def)
  have "length ([]::string) + length (expand_template
             (recovery_placeholders ''000000010000000000000002'')
             (cstr ''pg_archivecleanup /mnt/archive %r'')) < MAXPGPATH linux - 1"
    unfolding e by (simp add: linux_fields)
  from recovery_cmd_text_fits[OF this] e show ?thesis
    by (simp add: build_recovery_cmd_text[OF p])
qed

lemma settings_fields:
  "recoveryRestoreCommand settings = Some ''cp /mnt/archive/%f %p''"
  "StandbyMode settings = False"
  "recoveryRestoreCommand (settings\<lparr>StandbyMode := True\<rparr>) = Some ''cp /mnt/archive/%f %p''"
  "StandbyMode (settings\<lparr>StandbyMode := True\<rparr>) = True"
  by (simp_all add: settings_def)

lemma example_status_paths:
  "StatusFilePath linux ''000000010000000000000002'' ''.done''
   = ''pg_xlog/archive_status/000000010000000000000002.done''"
  "StatusFilePath linux ''000000010000000000000002'' ''.ready''
   = ''pg_xlog/archive_status/000000010000000000000002.ready''"
  by (simp_all add: StatusFilePath_def linux_fields NUL_def)

lemma example_status_oses:
  "os_stat (done_appears_at k) t p = (if k \<le> t then StatOk 0 else StatFail ENOENT)"
  "os_fopen (done_appears_at k) t p = None" "os_fclose (done_appears_at k) t p = None"
  "os_fopen quiet t p = None" "os_fclose quiet t p = None"
  "os_fopen disk_full t p = None" "os_fclose disk_full t p = Some (EOTHER 28)"
  by (simp_all add: done_appears_at_def quiet_def disk_full_def)

lemma settings_flags:
  "IsUnderPostmaster settings" "XLogArchivingActive settings"
  "\<not> XLogArchivingActive (settings\<lparr>XLogArchivingActive := False\<rparr>)"
  "\<not> IsUnderPostmaster (settings\<lparr>IsUnderPostmaster := False\<rparr>)"
  by (simp_all add: settings_def)

text \<open>The value of \<^verbatim>\<open>%r\<close> in the command.\<close>

lemma XLogFileName_cstr: "cstr (XLogFileName P tli segno) = XLogFileName P tli segno"
  using XLogFileName_chars(2)[of P tli segno] by (intro cstr_id) blast

lemma restore_placeholders_r:
  "restore_placeholders P xp xf lr (CHR ''r'') = Some (cstr lr)"
  by (simp add: restore_placeholders_def)

lemma expand_template_r:
  "expand_template (restore_placeholders P xp xf lr) (CHR ''%'' # CHR ''r'' # rest)
   = cstr lr @ expand_template (restore_placeholders P xp xf lr) rest"
  by (simp add: restore_placeholders_def)

lemma build_restore_cmd_expansion:
  assumes "0 < MAXPGPATH P"
  shows "\<exists>cmd. build_restore_cmd P junk template xp xf lr = Some cmd
           \<and> subseq cmd (expand_template (restore_placeholders P xp xf lr) (cstr template))
           \<and> (length (expand_template (restore_placeholders P xp xf lr) (cstr template)) + 1
                 < MAXPGPATH P
               \<longrightarrow> cmd = expand_template (restore_placeholders P xp xf lr) (cstr template))"
proof -
  let ?T = "restore_cmd_text P (MAXPGPATH P - 1) xp xf lr template []"
  let ?X = "expand_template (restore_placeholders P xp xf lr) (cstr template)"
  have b: "build_restore_cmd P junk template xp xf lr = Some ?T"
    using assms by (rule build_restore_cmd_text)
  have s: "subseq ?T ?X"
    using restore_cmd_text_subseq[of P "MAXPGPATH P - 1" xp xf lr template "[]"] by auto
  have f: "?T = ?X" if "length ?X + 1 < MAXPGPATH P"
  proof -
    from that have "length ([]::string) + length ?X < MAXPGPATH P - 1" by simp
    from restore_cmd_text_fits[OF this] show ?thesis by simp
  qed
  from b s f show ?thesis by blast
qed


section \<open>The command template\<close>

text \<open>
  Claim C9. For every template and all substitution values, also those whose full expansion
  is longer than \<^verbatim>\<open>MAXPGPATH\<close> allows, the loop of \<^verbatim>\<open>RestoreArchivedFile\<close> never
  accesses the array outside its bounds (it ends with an array and a pointer, not with a
  fault), the array keeps its length and the NUL in its last place, and the command is a
  NUL-terminated string of at most \<^verbatim>\<open>MAXPGPATH - 1\<close> characters. What does not go in
  is dropped without an error: the command is the full expansion with characters left
  out.
\<close>

theorem restore_command_never_overruns:
  assumes "0 < MAXPGPATH P"
  shows "\<exists>b dp cmd.
           restore_cmd_loop P (MAXPGPATH P - 1) xlogpath xlogfname lastRestartPointFname template
             ((uninitialised (MAXPGPATH P) junk)[MAXPGPATH P - 1 := NUL], 0) = Some (b, dp)
         \<and> length b = MAXPGPATH P \<and> dp < MAXPGPATH P \<and> b ! (MAXPGPATH P - 1) = NUL
         \<and> build_restore_cmd P junk template xlogpath xlogfname lastRestartPointFname = Some cmd
         \<and> cmd = take dp b \<and> length cmd \<le> MAXPGPATH P - 1 \<and> NUL \<notin> set cmd
         \<and> subseq cmd (expand_template
                          (restore_placeholders P xlogpath xlogfname lastRestartPointFname)
                          (cstr template))"
proof -
  let ?N = "MAXPGPATH P"
  let ?T = "restore_cmd_text P (?N - 1) xlogpath xlogfname lastRestartPointFname template []"
  from restore_cmd_loop_sim[OF holds_start(2)[OF assms]]
  obtain b dp where l:
    "restore_cmd_loop P (?N - 1) xlogpath xlogfname lastRestartPointFname template
       ((uninitialised ?N junk)[?N - 1 := NUL], 0) = Some (b, dp)"
    "holds ?N (b, dp) ?T"
    by (metis surj_pair)
  from l(2) have h: "dp = length ?T" "length b = ?N" "dp < ?N" "take dp b = ?T"
    "b ! (?N - 1) = NUL" "NUL \<notin> set ?T"
    by (auto simp: holds_def)
  have c: "build_restore_cmd P junk template xlogpath xlogfname lastRestartPointFname = Some ?T"
    using assms by (rule build_restore_cmd_text)
  have s: "subseq ?T (expand_template
                        (restore_placeholders P xlogpath xlogfname lastRestartPointFname)
                        (cstr template))"
    using restore_cmd_text_subseq[of P "?N - 1" xlogpath xlogfname lastRestartPointFname template "[]"]
    by auto
  have "length ?T \<le> ?N - 1" using h(1,3) by simp
  with l(1) h c s show ?thesis by auto
qed

text \<open>
  An instance: a file name of 2000 characters for \<^verbatim>\<open>%f\<close> is cut to 1022.
\<close>

theorem restore_command_never_overruns_witness:
  "0 < MAXPGPATH linux
   \<and> build_restore_cmd linux stale ''%f'' ''pg_xlog/RECOVERYXLOG'' (replicate 2000 (CHR ''A''))
        ''000000000000000000000000'' = Some (replicate 1022 (CHR ''A''))
   \<and> (\<exists>b dp cmd.
           restore_cmd_loop linux (MAXPGPATH linux - 1) ''pg_xlog/RECOVERYXLOG''
             (replicate 2000 (CHR ''A'')) ''000000000000000000000000'' ''%f''
             ((uninitialised (MAXPGPATH linux) stale)[MAXPGPATH linux - 1 := NUL], 0) = Some (b, dp)
         \<and> length b = MAXPGPATH linux \<and> dp < MAXPGPATH linux \<and> b ! (MAXPGPATH linux - 1) = NUL
         \<and> build_restore_cmd linux stale ''%f'' ''pg_xlog/RECOVERYXLOG''
              (replicate 2000 (CHR ''A'')) ''000000000000000000000000'' = Some cmd
         \<and> cmd = take dp b \<and> length cmd \<le> MAXPGPATH linux - 1 \<and> NUL \<notin> set cmd
         \<and> subseq cmd (expand_template
                          (restore_placeholders linux ''pg_xlog/RECOVERYXLOG''
                             (replicate 2000 (CHR ''A'')) ''000000000000000000000000'')
                          (cstr ''%f'')))"
proof -
  have h: "0 < MAXPGPATH linux" by (simp add: linux_def)
  have "build_restore_cmd linux stale ''%f'' ''pg_xlog/RECOVERYXLOG'' (replicate 2000 (CHR ''A''))
        ''000000000000000000000000'' = Some (replicate 1022 (CHR ''A''))"
  proof -
    have c: "MAXPGPATH linux - Suc 0 = 1023" by (simp add: linux_def)
    show ?thesis
      by (simp add: build_restore_cmd_text[OF h] c peek_def text_put_string_def cstr_def NUL_def)
  qed
  with h restore_command_never_overruns[OF h, of "''pg_xlog/RECOVERYXLOG''"
      "replicate 2000 (CHR ''A'')" "''000000000000000000000000''" "''%f''" stale]
  show ?thesis by simp
qed

text \<open>
  Claim C8, as stated, fails where the output is cut: after 1023 plain characters the array
  is full, and \<^verbatim>\<open>%%\<close> adds no \<^verbatim>\<open>%\<close> to the command, nor \<^verbatim>\<open>%z\<close> anything.
\<close>

theorem percent_dropped_when_full_counterexample:
  "build_restore_cmd linux stale (replicate 1023 (CHR ''a'') @ ''%%'') ''pg_xlog/RECOVERYXLOG''
     ''000000010000000000000002'' ''000000000000000000000000''
   = Some (replicate 1023 (CHR ''a''))
   \<and> CHR ''%'' \<notin> set (replicate 1023 (CHR ''a''))
   \<and> build_restore_cmd linux stale (replicate 1023 (CHR ''a'') @ ''%z'') ''pg_xlog/RECOVERYXLOG''
     ''000000010000000000000002'' ''000000000000000000000000''
   = Some (replicate 1023 (CHR ''a''))"
proof -
  have h: "0 < MAXPGPATH linux" by (simp add: linux_def)
  have c: "MAXPGPATH linux - Suc 0 = 1023" by (simp add: linux_def)
  have a: "CHR ''a'' \<noteq> NUL" "CHR ''a'' \<noteq> CHR ''%''" by (simp_all add: NUL_def)
  have r: "\<And>rest. restore_cmd_text linux 1023 ''pg_xlog/RECOVERYXLOG'' ''000000010000000000000002''
             ''000000000000000000000000'' (replicate 1023 (CHR ''a'') @ rest) []
           = restore_cmd_text linux 1023 ''pg_xlog/RECOVERYXLOG'' ''000000010000000000000002''
             ''000000000000000000000000'' rest ([] @ replicate 1023 (CHR ''a''))"
    by (rule restore_cmd_text_plain_run[OF a]) simp
  show ?thesis
    by (simp add: build_restore_cmd_text[OF h] c r peek_def text_put_char_def NUL_def)
qed

text \<open>
  Claim C8, amended. The expansion is deterministic and pure: the command depends on the
  template and the values only, not on what the array held before. Whenever the full
  expansion has fewer than \<^verbatim>\<open>MAXPGPATH - 1\<close> characters, the command of either call site
  is the expansion of the specification, in which \<^verbatim>\<open>%%\<close> is exactly one \<^verbatim>\<open>%\<close> and
  a \<^verbatim>\<open>%\<close> before a character that is no placeholder stands for itself, as does that
  character. In a longer expansion these characters can be dropped like any other.
\<close>

theorem template_expansion_when_it_fits:
  "build_restore_cmd P junk t xp xf lr = build_restore_cmd P junk' t xp xf lr
   \<and> build_recovery_cmd P junk t lr = build_recovery_cmd P junk' t lr
   \<and> (length (expand_template (restore_placeholders P xp xf lr) (cstr t)) + 1 < MAXPGPATH P
        \<longrightarrow> build_restore_cmd P junk t xp xf lr
              = Some (expand_template (restore_placeholders P xp xf lr) (cstr t)))
   \<and> (length (expand_template (recovery_placeholders lr) (cstr t)) + 1 < MAXPGPATH P
        \<longrightarrow> build_recovery_cmd P junk t lr
              = Some (expand_template (recovery_placeholders lr) (cstr t)))
   \<and> expand_template tbl (CHR ''%'' # CHR ''%'' # rest) = CHR ''%'' # expand_template tbl rest
   \<and> (tbl d = None \<and> d \<noteq> CHR ''%''
        \<longrightarrow> expand_template tbl (CHR ''%'' # d # rest)
              = CHR ''%'' # d # expand_template tbl rest)"
proof -
  have a: "build_restore_cmd P junk t xp xf lr
              = Some (expand_template (restore_placeholders P xp xf lr) (cstr t))"
    if "length (expand_template (restore_placeholders P xp xf lr) (cstr t)) + 1 < MAXPGPATH P"
  proof -
    from that have p: "0 < MAXPGPATH P" by simp
    from that have
      "length ([]::string) + length (expand_template (restore_placeholders P xp xf lr) (cstr t))
         < MAXPGPATH P - 1" by simp
    from restore_cmd_text_fits[OF this] show ?thesis
      by (simp add: build_restore_cmd_text[OF p])
  qed
  have b: "build_recovery_cmd P junk t lr
              = Some (expand_template (recovery_placeholders lr) (cstr t))"
    if "length (expand_template (recovery_placeholders lr) (cstr t)) + 1 < MAXPGPATH P"
  proof -
    from that have p: "0 < MAXPGPATH P" by simp
    from that have
      "length ([]::string) + length (expand_template (recovery_placeholders lr) (cstr t))
         < MAXPGPATH P - 1" by simp
    from recovery_cmd_text_fits[OF this] show ?thesis
      by (simp add: build_recovery_cmd_text[OF p])
  qed
  show ?thesis
    using a b build_restore_cmd_junk[of P junk t xp xf lr junk']
      build_recovery_cmd_junk[of P junk t lr junk']
    by simp
qed

theorem template_expansion_when_it_fits_witness:
  "length (expand_template
             (restore_placeholders linux ''pg_xlog/RECOVERYXLOG'' ''000000010000000000000002''
                ''000000000000000000000000'')
             (cstr ''cp /a/%f %p %r 100%% %z %'')) + 1 < MAXPGPATH linux
   \<and> length (expand_template (recovery_placeholders ''000000000000000000000000'')
               (cstr ''cp /a/%f %p %r 100%% %z %'')) + 1 < MAXPGPATH linux
   \<and> recovery_placeholders ''000000000000000000000000'' (CHR ''z'') = None
   \<and> CHR ''z'' \<noteq> CHR ''%''
   \<and> build_restore_cmd linux stale ''cp /a/%f %p %r 100%% %z %'' ''pg_xlog/RECOVERYXLOG''
        ''000000010000000000000002'' ''000000000000000000000000''
       = Some ''cp /a/000000010000000000000002 pg_xlog/RECOVERYXLOG 000000000000000000000000 100% %z %''
   \<and> build_recovery_cmd linux stale ''cp /a/%f %p %r 100%% %z %'' ''000000000000000000000000''
       = Some ''cp /a/%f %p 000000000000000000000000 100% %z %''
   \<and> expand_template (recovery_placeholders ''000000000000000000000000'') (CHR ''%'' # CHR ''z'' # ''!'')
       = CHR ''%'' # CHR ''z'' # expand_template (recovery_placeholders ''000000000000000000000000'') ''!''"
proof -
  have n: "native_char linux = (\<lambda>c. c)" "MAXPGPATH linux = 1024" by (simp_all add: linux_def)
  have e1: "expand_template
             (restore_placeholders linux ''pg_xlog/RECOVERYXLOG'' ''000000010000000000000002''
                ''000000000000000000000000'')
             (cstr ''cp /a/%f %p %r 100%% %z %'')
        = ''cp /a/000000010000000000000002 pg_xlog/RECOVERYXLOG 000000000000000000000000 100% %z %''"
    by (simp add: restore_placeholders_def n NUL_def)
  have e2: "expand_template (recovery_placeholders ''000000000000000000000000'')
               (cstr ''cp /a/%f %p %r 100%% %z %'')
        = ''cp /a/%f %p 000000000000000000000000 100% %z %''"
    by (simp add: recovery_placeholders_def NUL_def)
  have h1: "length (expand_template
             (restore_placeholders linux ''pg_xlog/RECOVERYXLOG'' ''000000010000000000000002''
                ''000000000000000000000000'')
             (cstr ''cp /a/%f %p %r 100%% %z %'')) + 1 < MAXPGPATH linux"
    unfolding e1 by (simp add: n)
  have h2: "length (expand_template (recovery_placeholders ''000000000000000000000000'')
               (cstr ''cp /a/%f %p %r 100%% %z %'')) + 1 < MAXPGPATH linux"
    unfolding e2 by (simp add: n)
  have h3: "recovery_placeholders ''000000000000000000000000'' (CHR ''z'') = None"
    "CHR ''z'' \<noteq> CHR ''%''"
    by (simp_all add: recovery_placeholders_def)
  from template_expansion_when_it_fits[of linux stale "''cp /a/%f %p %r 100%% %z %''"
      "''pg_xlog/RECOVERYXLOG''" "''000000010000000000000002''" "''000000000000000000000000''"
      stale "recovery_placeholders ''000000000000000000000000''" "''!''" "CHR ''z''"]
    h1 h2 h3 e1 e2
  show ?thesis by simp
qed

section \<open>Restoring a file from the archive\<close>

text \<open>
  In the claims below, ``the restore command ended with status \<open>rc\<close>'' is
  \<open>run_restore_command \<dots> = Inr (rc, tr1)\<close>: the function got as far as \<^verbatim>\<open>system\<close>, which
  returned \<open>rc\<close>, and \<open>tr1\<close> is the trace up to \<^verbatim>\<open>PostRestoreCommand\<close>.
\<close>

text \<open>
  Claim C7. With a restore command configured that ends with status 0, the file present at
  the temporary recovery path, and either no expected size (\<open>expectedSize = 0\<close>) or the
  size as expected, \<^verbatim>\<open>RestoreArchivedFile\<close> returns true, writes the temporary recovery
  path (built from \<open>recovername\<close>, not from the segment name) to \<^verbatim>\<open>path\<close>, and logs at
  LOG.
\<close>

theorem restored_file_is_reported:
  assumes "recoveryRestoreCommand G = Some template"
    and "run_restore_command P E junk template xlogfname recovername cleanupEnabled tr
           = Inr (0, tr1)"
    and "os_stat E (length tr1) (snprintf_s (MAXPGPATH P) (XLOGDIR P @ ''/'') recovername)
           = StatOk st_size"
    and "expectedSize = 0 \<or> st_size = expectedSize"
  shows "RestoreArchivedFile P G E junk xlogfname recovername expectedSize cleanupEnabled tr
         = (Returned (True, Some (snprintf_s (MAXPGPATH P) (XLOGDIR P @ ''/'') recovername)),
            tr1 @ [EStat (snprintf_s (MAXPGPATH P) (XLOGDIR P @ ''/'') recovername)
                     (StatOk st_size),
                   EReport LOG ''restored log file \"%s\" from archive''])"
  using assms
  by (auto simp: RestoreArchivedFile_def check_restored_def Let_def ereport_def)

theorem restored_file_is_reported_witness:
  "recoveryRestoreCommand settings = Some ''cp /mnt/archive/%f %p''
   \<and> os_stat (restored 16777216) 5 ''pg_xlog/RECOVERYXLOG'' = StatOk 16777216
   \<and> RestoreArchivedFile linux settings (restored 16777216) stale
         ''000000010000000000000002'' ''RECOVERYXLOG'' 16777216 False []
       = (Returned (True, Some ''pg_xlog/RECOVERYXLOG''),
          [EStat ''pg_xlog/RECOVERYXLOG'' (StatFail ENOENT),
           EReport DEBUG3 ''executing restore command \"%s\"'', EPreRestoreCommand,
           ESystem ''cp /mnt/archive/000000010000000000000002 pg_xlog/RECOVERYXLOG'' 0,
           EPostRestoreCommand,
           EStat ''pg_xlog/RECOVERYXLOG'' (StatOk 16777216),
           EReport LOG ''restored log file \"%s\" from archive''])
   \<and> RestoreArchivedFile linux settings (restored 5) stale
         ''000000010000000000000002'' ''RECOVERYXLOG'' 0 False []
       = (Returned (True, Some ''pg_xlog/RECOVERYXLOG''),
          [EStat ''pg_xlog/RECOVERYXLOG'' (StatFail ENOENT),
           EReport DEBUG3 ''executing restore command \"%s\"'', EPreRestoreCommand,
           ESystem ''cp /mnt/archive/000000010000000000000002 pg_xlog/RECOVERYXLOG'' 0,
           EPostRestoreCommand,
           EStat ''pg_xlog/RECOVERYXLOG'' (StatOk 5),
           EReport LOG ''restored log file \"%s\" from archive''])"
proof -
  have r: "run_restore_command linux (restored n) stale ''cp /mnt/archive/%f %p''
             ''000000010000000000000002'' ''RECOVERYXLOG'' False []
           = Inr (0, [EStat ''pg_xlog/RECOVERYXLOG'' (StatFail ENOENT),
                      EReport DEBUG3 ''executing restore command \"%s\"'', EPreRestoreCommand,
                      ESystem ''cp /mnt/archive/000000010000000000000002 pg_xlog/RECOVERYXLOG'' 0,
                      EPostRestoreCommand])" for n
    using example_run[of "restored n"] by (simp add: example_oses)
  have s: "os_stat (restored n)
             (length [EStat ''pg_xlog/RECOVERYXLOG'' (StatFail ENOENT),
                      EReport DEBUG3 ''executing restore command \"%s\"'', EPreRestoreCommand,
                      ESystem ''cp /mnt/archive/000000010000000000000002 pg_xlog/RECOVERYXLOG'' 0,
                      EPostRestoreCommand])
             (snprintf_s (MAXPGPATH linux) (XLOGDIR linux @ ''/'') ''RECOVERYXLOG'') = StatOk n" for n
    by (simp add: example_oses)
  have a: "(16777216::int) = 0 \<or> (16777216::int) = 16777216" by simp
  have b: "(0::int) = 0 \<or> (5::int) = 0" by simp
  from restored_file_is_reported[OF settings_fields(1) r s a]
    restored_file_is_reported[OF settings_fields(1) r s b]
  show ?thesis by (simp add: example_paths example_oses settings_fields)
qed

text \<open>
  Claim C2. When the restore command ends with status 0, the restored file exists, an
  expected size other than 0 was given (\<open>expectedSize\<close> is a file size, so it is not
  negative) and the size of the file differs from it: in standby mode with a file smaller
  than expected the mismatch is logged at DEBUG1 and the function returns false, without
  an error; in every other case of a mismatch (not in standby mode, or the file not
  smaller) the report is FATAL and ends the process.
\<close>

theorem wrong_size_of_restored_file:
  assumes "recoveryRestoreCommand G = Some template"
    and "run_restore_command P E junk template xlogfname recovername cleanupEnabled tr
           = Inr (0, tr1)"
    and "os_stat E (length tr1) (snprintf_s (MAXPGPATH P) (XLOGDIR P @ ''/'') recovername)
           = StatOk st_size"
    and "0 \<le> expectedSize" and "expectedSize \<noteq> 0"
    and "st_size \<noteq> expectedSize"
  shows "RestoreArchivedFile P G E junk xlogfname recovername expectedSize cleanupEnabled tr
         = (if StandbyMode G \<and> st_size < expectedSize
            then (Returned (False, None),
                  tr1 @ [EStat (snprintf_s (MAXPGPATH P) (XLOGDIR P @ ''/'') recovername)
                           (StatOk st_size),
                         EReport DEBUG1
                           ''archive file \"%s\" has wrong size: %lu instead of %lu''])
            else (Fatal,
                  tr1 @ [EStat (snprintf_s (MAXPGPATH P) (XLOGDIR P @ ''/'') recovername)
                           (StatOk st_size),
                         EReport FATAL
                           ''archive file \"%s\" has wrong size: %lu instead of %lu'']))"
  using assms
  by (auto simp: RestoreArchivedFile_def check_restored_def Let_def ereport_def)

theorem wrong_size_of_restored_file_witness:
  "RestoreArchivedFile linux settings (restored 5) stale
         ''000000010000000000000002'' ''RECOVERYXLOG'' 16777216 False []
       = (Fatal,
          [EStat ''pg_xlog/RECOVERYXLOG'' (StatFail ENOENT),
           EReport DEBUG3 ''executing restore command \"%s\"'', EPreRestoreCommand,
           ESystem ''cp /mnt/archive/000000010000000000000002 pg_xlog/RECOVERYXLOG'' 0,
           EPostRestoreCommand,
           EStat ''pg_xlog/RECOVERYXLOG'' (StatOk 5),
           EReport FATAL ''archive file \"%s\" has wrong size: %lu instead of %lu''])
   \<and> RestoreArchivedFile linux (settings\<lparr>StandbyMode := True\<rparr>) (restored 5) stale
         ''000000010000000000000002'' ''RECOVERYXLOG'' 16777216 False []
       = (Returned (False, None),
          [EStat ''pg_xlog/RECOVERYXLOG'' (StatFail ENOENT),
           EReport DEBUG3 ''executing restore command \"%s\"'', EPreRestoreCommand,
           ESystem ''cp /mnt/archive/000000010000000000000002 pg_xlog/RECOVERYXLOG'' 0,
           EPostRestoreCommand,
           EStat ''pg_xlog/RECOVERYXLOG'' (StatOk 5),
           EReport DEBUG1 ''archive file \"%s\" has wrong size: %lu instead of %lu''])
   \<and> RestoreArchivedFile linux (settings\<lparr>StandbyMode := True\<rparr>) (restored 33554432) stale
         ''000000010000000000000002'' ''RECOVERYXLOG'' 16777216 False []
       = (Fatal,
          [EStat ''pg_xlog/RECOVERYXLOG'' (StatFail ENOENT),
           EReport DEBUG3 ''executing restore command \"%s\"'', EPreRestoreCommand,
           ESystem ''cp /mnt/archive/000000010000000000000002 pg_xlog/RECOVERYXLOG'' 0,
           EPostRestoreCommand,
           EStat ''pg_xlog/RECOVERYXLOG'' (StatOk 33554432),
           EReport FATAL ''archive file \"%s\" has wrong size: %lu instead of %lu''])"
proof -
  have r: "run_restore_command linux (restored n) stale ''cp /mnt/archive/%f %p''
             ''000000010000000000000002'' ''RECOVERYXLOG'' False []
           = Inr (0, [EStat ''pg_xlog/RECOVERYXLOG'' (StatFail ENOENT),
                      EReport DEBUG3 ''executing restore command \"%s\"'', EPreRestoreCommand,
                      ESystem ''cp /mnt/archive/000000010000000000000002 pg_xlog/RECOVERYXLOG'' 0,
                      EPostRestoreCommand])" for n
    using example_run[of "restored n"] by (simp add: example_oses)
  have s: "os_stat (restored n)
             (length [EStat ''pg_xlog/RECOVERYXLOG'' (StatFail ENOENT),
                      EReport DEBUG3 ''executing restore command \"%s\"'', EPreRestoreCommand,
                      ESystem ''cp /mnt/archive/000000010000000000000002 pg_xlog/RECOVERYXLOG'' 0,
                      EPostRestoreCommand])
             (snprintf_s (MAXPGPATH linux) (XLOGDIR linux @ ''/'') ''RECOVERYXLOG'') = StatOk n" for n
    by (simp add: example_oses)
  have p: "(0::int) \<le> 16777216" "(16777216::int) \<noteq> 0" by simp_all
  have d: "(5::int) \<noteq> 16777216" "(33554432::int) \<noteq> 16777216" by simp_all
  from wrong_size_of_restored_file[OF settings_fields(1) r s p d(1)]
    wrong_size_of_restored_file[OF settings_fields(3) r s p d(1)]
    wrong_size_of_restored_file[OF settings_fields(3) r s p d(2)]
  show ?thesis by (simp add: example_paths settings_fields)
qed

text \<open>
  Claim C4. When the restore command ended with a nonzero status that is not a termination
  by SIGTERM: if the child was killed by a signal or exited with a status above 125, the
  report is FATAL and ends the process; for any other nonzero status the failure is logged
  at DEBUG2 and the function returns false with the conventional path of the segment,
  \<^verbatim>\<open>XLOGDIR/xlogfname\<close>.
\<close>

theorem failed_restore_command:
  assumes "recoveryRestoreCommand G = Some template"
    and "run_restore_command P E junk template xlogfname recovername cleanupEnabled tr
           = Inr (rc, tr1)"
    and "rc \<noteq> 0"
    and "\<not> (WIFSIGNALED P rc \<and> WTERMSIG P rc = SIGTERM P)"
  shows "RestoreArchivedFile P G E junk xlogfname recovername expectedSize cleanupEnabled tr
         = (if WIFSIGNALED P rc \<or> 125 < WEXITSTATUS P rc
            then (Fatal,
                  tr1 @ [EReport FATAL
                           ''could not restore file \"%s\" from archive: return code %d''])
            else (Returned (False,
                     Some (snprintf_s (MAXPGPATH P) (XLOGDIR P @ ''/'') xlogfname)),
                  tr1 @ [EReport DEBUG2
                           ''could not restore file \"%s\" from archive: return code %d'']))"
  using assms
  by (auto simp: RestoreArchivedFile_def check_restored_def restore_failed_def not_available_def
        Let_def ereport_def)

text \<open>
  Instances: exit status 1 is ``not in the archive''; SIGINT and exit status 127 are fatal.
\<close>

theorem failed_restore_command_witness:
  "RestoreArchivedFile linux settings (failing 256) stale
         ''000000010000000000000002'' ''RECOVERYXLOG'' 16777216 False []
       = (Returned (False, Some ''pg_xlog/000000010000000000000002''),
          [EStat ''pg_xlog/RECOVERYXLOG'' (StatFail ENOENT),
           EReport DEBUG3 ''executing restore command \"%s\"'', EPreRestoreCommand,
           ESystem ''cp /mnt/archive/000000010000000000000002 pg_xlog/RECOVERYXLOG'' 256,
           EPostRestoreCommand,
           EReport DEBUG2 ''could not restore file \"%s\" from archive: return code %d''])
   \<and> RestoreArchivedFile linux settings (failing 2) stale
         ''000000010000000000000002'' ''RECOVERYXLOG'' 16777216 False []
       = (Fatal,
          [EStat ''pg_xlog/RECOVERYXLOG'' (StatFail ENOENT),
           EReport DEBUG3 ''executing restore command \"%s\"'', EPreRestoreCommand,
           ESystem ''cp /mnt/archive/000000010000000000000002 pg_xlog/RECOVERYXLOG'' 2,
           EPostRestoreCommand,
           EReport FATAL ''could not restore file \"%s\" from archive: return code %d''])
   \<and> RestoreArchivedFile linux settings (failing 32512) stale
         ''000000010000000000000002'' ''RECOVERYXLOG'' 16777216 False []
       = (Fatal,
          [EStat ''pg_xlog/RECOVERYXLOG'' (StatFail ENOENT),
           EReport DEBUG3 ''executing restore command \"%s\"'', EPreRestoreCommand,
           ESystem ''cp /mnt/archive/000000010000000000000002 pg_xlog/RECOVERYXLOG'' 32512,
           EPostRestoreCommand,
           EReport FATAL ''could not restore file \"%s\" from archive: return code %d''])"
proof -
  have r: "run_restore_command linux (failing rc) stale ''cp /mnt/archive/%f %p''
             ''000000010000000000000002'' ''RECOVERYXLOG'' False []
           = Inr (rc, [EStat ''pg_xlog/RECOVERYXLOG'' (StatFail ENOENT),
                      EReport DEBUG3 ''executing restore command \"%s\"'', EPreRestoreCommand,
                      ESystem ''cp /mnt/archive/000000010000000000000002 pg_xlog/RECOVERYXLOG'' rc,
                      EPostRestoreCommand])" for rc
    using example_run[of "failing rc"] by (simp add: example_oses)
  have z: "(256::int) \<noteq> 0" "(2::int) \<noteq> 0" "(32512::int) \<noteq> 0" by simp_all
  have n: "\<not> (WIFSIGNALED linux 256 \<and> WTERMSIG linux 256 = SIGTERM linux)"
    "\<not> (WIFSIGNALED linux 2 \<and> WTERMSIG linux 2 = SIGTERM linux)"
    "\<not> (WIFSIGNALED linux 32512 \<and> WTERMSIG linux 32512 = SIGTERM linux)"
    by (simp_all add: linux_fields)
  have c: "\<not> (WIFSIGNALED linux 256 \<or> 125 < WEXITSTATUS linux 256)"
    "WIFSIGNALED linux 2 \<or> 125 < WEXITSTATUS linux 2"
    "WIFSIGNALED linux 32512 \<or> 125 < WEXITSTATUS linux 32512"
    by (simp_all add: linux_fields)
  from failed_restore_command[OF settings_fields(1) r z(1) n(1)]
    failed_restore_command[OF settings_fields(1) r z(2) n(2)]
    failed_restore_command[OF settings_fields(1) r z(3) n(3)] c
  show ?thesis by (simp add: example_paths)
qed

text \<open>
  Claim C3, as stated, fails at the second call site: \<^verbatim>\<open>ExecuteRecoveryCommand\<close> has no
  case for SIGTERM. A command killed by SIGTERM is reported as a failure, at WARNING with a
  normal return when \<open>failOnSignal\<close> is false, at FATAL when it is true.
\<close>

theorem recovery_command_reports_sigterm_counterexample:
  "WIFSIGNALED linux 15 \<and> WTERMSIG linux 15 = SIGTERM linux
   \<and> ExecuteRecoveryCommand linux (failing 15) stale ''pg_archivecleanup /mnt/archive %r''
         ''archive_cleanup_command'' False []
       = (Returned (),
          [EGetOldestRestartPoint 33554432 1,
           EReport DEBUG3 ''executing %s \"%s\"'',
           ESystem ''pg_archivecleanup /mnt/archive 000000010000000000000002'' 15,
           EReport WARNING ''%s \"%s\": return code %d''])
   \<and> ExecuteRecoveryCommand linux (failing 15) stale ''pg_archivecleanup /mnt/archive %r''
         ''recovery_end_command'' True []
       = (Fatal,
          [EGetOldestRestartPoint 33554432 1,
           EReport DEBUG3 ''executing %s \"%s\"'',
           ESystem ''pg_archivecleanup /mnt/archive 000000010000000000000002'' 15,
           EReport FATAL ''%s \"%s\": return code %d''])"
  by (simp add: ExecuteRecoveryCommand_def example_recovery_start example_recovery_cmd
        example_oses linux_fields Let_def ereport_def)

text \<open>
  Claim C3, amended. In \<^verbatim>\<open>RestoreArchivedFile\<close>, when the child was terminated by SIGTERM
  the process exits at once through \<^verbatim>\<open>proc_exit(1)\<close> and reports nothing. In
  \<^verbatim>\<open>ExecuteRecoveryCommand\<close> a child terminated by SIGTERM is handled like one killed by
  any other signal: the failure is reported at FATAL, which ends the process, when
  \<open>failOnSignal\<close> is set, and at WARNING, after which the function returns, when it is not.
  The wait status of a child that a signal terminated is not 0.
\<close>

theorem sigterm_at_the_two_call_sites:
  assumes "WIFSIGNALED P rc" and "WTERMSIG P rc = SIGTERM P" and "rc \<noteq> 0"
  shows "(recoveryRestoreCommand G = Some template
            \<and> run_restore_command P E junk template xlogfname recovername cleanupEnabled tr
                = Inr (rc, tr1)
          \<longrightarrow> RestoreArchivedFile P G E junk xlogfname recovername expectedSize cleanupEnabled tr
                = (ProcExit 1, tr1 @ [EProcExit 1]))
       \<and> (oldest_restart_fname P E tr = (lastRestartPointFname, tr2)
            \<and> build_recovery_cmd P junk command lastRestartPointFname = Some cmd
            \<and> os_system E (length tr2 + 1) cmd = rc
          \<longrightarrow> ExecuteRecoveryCommand P E junk command commandName failOnSignal tr
                = (if failOnSignal
                   then (Fatal,
                         tr2 @ [EReport DEBUG3 ''executing %s \"%s\"'', ESystem cmd rc,
                                EReport FATAL ''%s \"%s\": return code %d''])
                   else (Returned (),
                         tr2 @ [EReport DEBUG3 ''executing %s \"%s\"'', ESystem cmd rc,
                                EReport WARNING ''%s \"%s\": return code %d''])))"
  using assms
  by (auto simp: RestoreArchivedFile_def check_restored_def restore_failed_def
        ExecuteRecoveryCommand_def Let_def ereport_def)

theorem sigterm_at_the_two_call_sites_witness:
  "WIFSIGNALED linux 15 \<and> WTERMSIG linux 15 = SIGTERM linux \<and> (15::int) \<noteq> 0
   \<and> RestoreArchivedFile linux settings (failing 15) stale
         ''000000010000000000000002'' ''RECOVERYXLOG'' 16777216 False []
       = (ProcExit 1,
          [EStat ''pg_xlog/RECOVERYXLOG'' (StatFail ENOENT),
           EReport DEBUG3 ''executing restore command \"%s\"'', EPreRestoreCommand,
           ESystem ''cp /mnt/archive/000000010000000000000002 pg_xlog/RECOVERYXLOG'' 15,
           EPostRestoreCommand, EProcExit 1])
   \<and> ExecuteRecoveryCommand linux (failing 15) stale ''pg_archivecleanup /mnt/archive %r''
         ''archive_cleanup_command'' False []
       = (Returned (),
          [EGetOldestRestartPoint 33554432 1,
           EReport DEBUG3 ''executing %s \"%s\"'',
           ESystem ''pg_archivecleanup /mnt/archive 000000010000000000000002'' 15,
           EReport WARNING ''%s \"%s\": return code %d''])"
proof -
  have h: "WIFSIGNALED linux 15" "WTERMSIG linux 15 = SIGTERM linux" "(15::int) \<noteq> 0"
    by (simp_all add: linux_fields)
  have r: "run_restore_command linux (failing 15) stale ''cp /mnt/archive/%f %p''
             ''000000010000000000000002'' ''RECOVERYXLOG'' False []
           = Inr (15, [EStat ''pg_xlog/RECOVERYXLOG'' (StatFail ENOENT),
                      EReport DEBUG3 ''executing restore command \"%s\"'', EPreRestoreCommand,
                      ESystem ''cp /mnt/archive/000000010000000000000002 pg_xlog/RECOVERYXLOG'' 15,
                      EPostRestoreCommand])"
    using example_run[of "failing 15"] by (simp add: example_oses)
  have s: "os_system (failing 15) (length [EGetOldestRestartPoint 33554432 1] + 1)
             ''pg_archivecleanup /mnt/archive 000000010000000000000002'' = 15"
    by (simp add: example_oses)
  from sigterm_at_the_two_call_sites[OF h, where G = settings
      and template = "''cp /mnt/archive/%f %p''" and E = "failing 15" and junk = stale
      and xlogfname = "''000000010000000000000002''" and recovername = "''RECOVERYXLOG''"
      and cleanupEnabled = False and tr = "[]" and expectedSize = 16777216
      and ?tr1.0 = "[EStat ''pg_xlog/RECOVERYXLOG'' (StatFail ENOENT),
                      EReport DEBUG3 ''executing restore command \"%s\"'', EPreRestoreCommand,
                      ESystem ''cp /mnt/archive/000000010000000000000002 pg_xlog/RECOVERYXLOG'' 15,
                      EPostRestoreCommand]"
      and lastRestartPointFname = "''000000010000000000000002''"
      and ?tr2.0 = "[EGetOldestRestartPoint 33554432 1]"
      and command = "''pg_archivecleanup /mnt/archive %r''"
      and cmd = "''pg_archivecleanup /mnt/archive 000000010000000000000002''"
      and commandName = "''archive_cleanup_command''" and failOnSignal = False]
    settings_fields(1) r example_recovery_start[of 15] example_recovery_cmd s h
  show ?thesis by simp
qed

text \<open>
  Claim C5. The file name that \<^verbatim>\<open>RestoreArchivedFile\<close> substitutes for \<^verbatim>\<open>%r\<close>. With
  \<open>cleanupEnabled\<close> it is the name of the segment of the oldest restart point, as
  \<^verbatim>\<open>GetOldestRestartPoint\<close> gives it, and the code asserts that this name sorts at or
  before the requested name: in a build with assertion checking, every run that gets as
  far as the command has the cutoff at or before the request, and a run in which it sorts
  after stops with a failed assertion, before the command is built, and reports no error
  (a build without assertion checking does not look at the order). Without
  \<open>cleanupEnabled\<close> it is the name of timeline 0 and segment 0, which is 24 zeros and sorts
  at or before every segment file name. In both cases the command that is run is the
  template with the cutoff in the place of \<^verbatim>\<open>%r\<close>: the table of placeholders maps \<open>r\<close> to
  the cutoff, a \<^verbatim>\<open>%r\<close> in the template expands to it, the command is this expansion
  whenever it has fewer than \<^verbatim>\<open>MAXPGPATH - 1\<close> characters, and the expansion with
  characters left out otherwise.
\<close>

theorem retention_cutoff_for_restore:
  assumes "0 < MAXPGPATH P"
    and "remove_existing E (snprintf_s (MAXPGPATH P) (XLOGDIR P @ ''/'') recovername) tr = Inr tr1"
    and "os_restart_point E (length tr1) = (restartRedoPtr, restartTli)"
  shows "\<exists>cmd_on cmd_off.
           run_restore_command P E junk template xlogfname recovername True tr
             = (if USE_ASSERT_CHECKING P
                     \<and> 0 < strcmp (XLogFileName P restartTli (XLByteToSeg P restartRedoPtr))
                              xlogfname
                then Inl (AssertFailed,
                          tr1 @ [EGetOldestRestartPoint restartRedoPtr restartTli])
                else Inr (os_system E (length tr1 + 3) cmd_on,
                          tr1 @ [EGetOldestRestartPoint restartRedoPtr restartTli,
                                 EReport DEBUG3 ''executing restore command \"%s\"'',
                                 EPreRestoreCommand,
                                 ESystem cmd_on (os_system E (length tr1 + 3) cmd_on),
                                 EPostRestoreCommand]))
         \<and> (USE_ASSERT_CHECKING P
              \<and> (\<exists>rc tr2. run_restore_command P E junk template xlogfname recovername True tr
                             = Inr (rc, tr2))
             \<longrightarrow> strcmp (XLogFileName P restartTli (XLByteToSeg P restartRedoPtr)) xlogfname
                   \<le> 0)
         \<and> run_restore_command P E junk template xlogfname recovername False tr
             = Inr (os_system E (length tr1 + 2) cmd_off,
                    tr1 @ [EReport DEBUG3 ''executing restore command \"%s\"'',
                           EPreRestoreCommand,
                           ESystem cmd_off (os_system E (length tr1 + 2) cmd_off),
                           EPostRestoreCommand])
         \<and> build_restore_cmd P junk template
               (snprintf_s (MAXPGPATH P) (XLOGDIR P @ ''/'') recovername) xlogfname
               (XLogFileName P restartTli (XLByteToSeg P restartRedoPtr)) = Some cmd_on
         \<and> subseq cmd_on
               (expand_template
                  (restore_placeholders P
                     (snprintf_s (MAXPGPATH P) (XLOGDIR P @ ''/'') recovername) xlogfname
                     (XLogFileName P restartTli (XLByteToSeg P restartRedoPtr)))
                  (cstr template))
         \<and> (length (expand_template
                        (restore_placeholders P
                           (snprintf_s (MAXPGPATH P) (XLOGDIR P @ ''/'') recovername) xlogfname
                           (XLogFileName P restartTli (XLByteToSeg P restartRedoPtr)))
                        (cstr template)) + 1 < MAXPGPATH P
             \<longrightarrow> cmd_on = expand_template
                             (restore_placeholders P
                                (snprintf_s (MAXPGPATH P) (XLOGDIR P @ ''/'') recovername)
                                xlogfname
                                (XLogFileName P restartTli (XLByteToSeg P restartRedoPtr)))
                             (cstr template))
         \<and> build_restore_cmd P junk template
               (snprintf_s (MAXPGPATH P) (XLOGDIR P @ ''/'') recovername) xlogfname
               (XLogFileName P 0 0) = Some cmd_off
         \<and> subseq cmd_off
               (expand_template
                  (restore_placeholders P
                     (snprintf_s (MAXPGPATH P) (XLOGDIR P @ ''/'') recovername) xlogfname
                     (XLogFileName P 0 0))
                  (cstr template))
         \<and> (length (expand_template
                        (restore_placeholders P
                           (snprintf_s (MAXPGPATH P) (XLOGDIR P @ ''/'') recovername) xlogfname
                           (XLogFileName P 0 0))
                        (cstr template)) + 1 < MAXPGPATH P
             \<longrightarrow> cmd_off = expand_template
                              (restore_placeholders P
                                 (snprintf_s (MAXPGPATH P) (XLOGDIR P @ ''/'') recovername)
                                 xlogfname (XLogFileName P 0 0))
                              (cstr template))
         \<and> restore_placeholders P xp xf (XLogFileName P restartTli (XLByteToSeg P restartRedoPtr))
               (CHR ''r'')
             = Some (XLogFileName P restartTli (XLByteToSeg P restartRedoPtr))
         \<and> restore_placeholders P xp xf (XLogFileName P 0 0) (CHR ''r'')
             = Some (XLogFileName P 0 0)
         \<and> expand_template (restore_placeholders P xp xf lr) (CHR ''%'' # CHR ''r'' # rest)
             = cstr lr @ expand_template (restore_placeholders P xp xf lr) rest
         \<and> XLogFileName P 0 0 = ''000000000000000000000000''
         \<and> (\<forall>tli segno. strcmp (XLogFileName P 0 0) (XLogFileName P tli segno) \<le> 0)"
proof -
  let ?xp = "snprintf_s (MAXPGPATH P) (XLOGDIR P @ ''/'') recovername"
  let ?on = "XLogFileName P restartTli (XLByteToSeg P restartRedoPtr)"
  let ?off = "XLogFileName P 0 0"
  let ?X = "\<lambda>lr. expand_template (restore_placeholders P ?xp xlogfname lr) (cstr template)"
  from build_restore_cmd_expansion[OF assms(1), of junk template ?xp xlogfname ?on]
  obtain cmd_on where on: "build_restore_cmd P junk template ?xp xlogfname ?on = Some cmd_on"
    "subseq cmd_on (?X ?on)" "length (?X ?on) + 1 < MAXPGPATH P \<longrightarrow> cmd_on = ?X ?on"
    by blast
  from build_restore_cmd_expansion[OF assms(1), of junk template ?xp xlogfname ?off]
  obtain cmd_off where off: "build_restore_cmd P junk template ?xp xlogfname ?off = Some cmd_off"
    "subseq cmd_off (?X ?off)" "length (?X ?off) + 1 < MAXPGPATH P \<longrightarrow> cmd_off = ?X ?off"
    by blast
  have c1: "cutoff_fname P E True tr1
            = (?on, tr1 @ [EGetOldestRestartPoint restartRedoPtr restartTli])"
    using assms(3) by (simp add: cutoff_fname_def oldest_restart_fname_def)
  have c0: "cutoff_fname P E False tr1 = (?off, tr1)"
    by (simp add: cutoff_fname_def)
  have r1: "run_restore_command P E junk template xlogfname recovername True tr
             = (if USE_ASSERT_CHECKING P \<and> 0 < strcmp ?on xlogfname
                then Inl (AssertFailed,
                          tr1 @ [EGetOldestRestartPoint restartRedoPtr restartTli])
                else Inr (os_system E (length tr1 + 3) cmd_on,
                          tr1 @ [EGetOldestRestartPoint restartRedoPtr restartTli,
                                 EReport DEBUG3 ''executing restore command \"%s\"'',
                                 EPreRestoreCommand,
                                 ESystem cmd_on (os_system E (length tr1 + 3) cmd_on),
                                 EPostRestoreCommand]))"
    using assms(2) c1 on(1)
    by (auto simp: run_restore_command_def Let_def ereport_def numeral_3_eq_3)
  have ord: "strcmp ?on xlogfname \<le> 0"
    if "USE_ASSERT_CHECKING P"
      and "\<exists>rc tr2. run_restore_command P E junk template xlogfname recovername True tr
                      = Inr (rc, tr2)"
    using that r1 by (auto split: if_splits)
  have r0: "run_restore_command P E junk template xlogfname recovername False tr
             = Inr (os_system E (length tr1 + 2) cmd_off,
                    tr1 @ [EReport DEBUG3 ''executing restore command \"%s\"'',
                           EPreRestoreCommand,
                           ESystem cmd_off (os_system E (length tr1 + 2) cmd_off),
                           EPostRestoreCommand])"
    using assms(2) c0 off(1)
    by (auto simp: run_restore_command_def Let_def ereport_def numeral_2_eq_2)
  have pr: "restore_placeholders P xp xf ?on (CHR ''r'') = Some ?on"
    "restore_placeholders P xp xf ?off (CHR ''r'') = Some ?off"
    by (simp_all add: restore_placeholders_r XLogFileName_cstr)
  show ?thesis
    apply (rule exI[of _ cmd_on])
    apply (rule exI[of _ cmd_off])
    apply (intro conjI)
    subgoal by (rule r1)
    subgoal using ord by blast
    subgoal by (rule r0)
    subgoal by (rule on(1))
    subgoal by (rule on(2))
    subgoal by (rule on(3))
    subgoal by (rule off(1))
    subgoal by (rule off(2))
    subgoal by (rule off(3))
    subgoal by (rule pr(1))
    subgoal by (rule pr(2))
    subgoal by (rule expand_template_r)
    subgoal by (rule XLogFileName_0_0)
    subgoal using XLogFileName_least[of P] by blast
    done
qed

text \<open>
  An instance: the oldest restart point lies in segment 2 of timeline 1, and the template
  ends with \<^verbatim>\<open>%r\<close>. A request for segment 2 runs the command with the name of segment 2
  for \<^verbatim>\<open>%r\<close>; a request for segment 1 fails the assertion; without cleanup the command
  has 24 zeros for \<^verbatim>\<open>%r\<close>.
\<close>

theorem retention_cutoff_for_restore_witness:
  "0 < MAXPGPATH linux
   \<and> remove_existing quiet ''pg_xlog/RECOVERYXLOG'' []
       = Inr [EStat ''pg_xlog/RECOVERYXLOG'' (StatFail ENOENT)]
   \<and> os_restart_point quiet 1 = (33554432, 1)
   \<and> XLogFileName linux 1 (XLByteToSeg linux 33554432) = ''000000010000000000000002''
   \<and> USE_ASSERT_CHECKING linux
   \<and> run_restore_command linux quiet stale ''restore.sh %f %p %r''
        ''000000010000000000000002'' ''RECOVERYXLOG'' True []
       = Inr (0, [EStat ''pg_xlog/RECOVERYXLOG'' (StatFail ENOENT),
                  EGetOldestRestartPoint 33554432 1,
                  EReport DEBUG3 ''executing restore command \"%s\"'', EPreRestoreCommand,
                  ESystem ''restore.sh 000000010000000000000002 pg_xlog/RECOVERYXLOG 000000010000000000000002'' 0,
                  EPostRestoreCommand])
   \<and> strcmp (XLogFileName linux 1 (XLByteToSeg linux 33554432)) ''000000010000000000000002''
       \<le> 0
   \<and> run_restore_command linux quiet stale ''restore.sh %f %p %r''
        ''000000010000000000000001'' ''RECOVERYXLOG'' True []
       = Inl (AssertFailed, [EStat ''pg_xlog/RECOVERYXLOG'' (StatFail ENOENT),
                             EGetOldestRestartPoint 33554432 1])
   \<and> run_restore_command linux quiet stale ''restore.sh %f %p %r''
        ''000000010000000000000002'' ''RECOVERYXLOG'' False []
       = Inr (0, [EStat ''pg_xlog/RECOVERYXLOG'' (StatFail ENOENT),
                  EReport DEBUG3 ''executing restore command \"%s\"'', EPreRestoreCommand,
                  ESystem ''restore.sh 000000010000000000000002 pg_xlog/RECOVERYXLOG 000000000000000000000000'' 0,
                  EPostRestoreCommand])
   \<and> (\<forall>tli segno. strcmp (XLogFileName linux 0 0) (XLogFileName linux tli segno) \<le> 0)"
proof -
  have p: "0 < MAXPGPATH linux" by (simp add: linux_fields)
  have e: "remove_existing quiet
             (snprintf_s (MAXPGPATH linux) (XLOGDIR linux @ ''/'') ''RECOVERYXLOG'') []
           = Inr [EStat ''pg_xlog/RECOVERYXLOG'' (StatFail ENOENT)]"
    by (simp add: remove_existing_def example_paths example_oses Let_def)
  have o: "os_restart_point quiet (length [EStat ''pg_xlog/RECOVERYXLOG'' (StatFail ENOENT)])
           = (33554432, 1)"
    by (simp add: example_oses)
  have a: "USE_ASSERT_CHECKING linux" by (simp add: linux_fields)
  have m: "MAXPGPATH linux = 1024" by (simp add: linux_fields)
  have c: "strcmp ''000000010000000000000002'' ''000000010000000000000002'' = 0"
    "strcmp ''000000010000000000000002'' ''000000010000000000000001'' = 1"
    by (simp_all add: strcmp_def NUL_def)
  have x_on: "expand_template
                (restore_placeholders linux ''pg_xlog/RECOVERYXLOG'' ''000000010000000000000002''
                   ''000000010000000000000002'')
                (cstr ''restore.sh %f %p %r'')
        = ''restore.sh 000000010000000000000002 pg_xlog/RECOVERYXLOG 000000010000000000000002''"
    by (simp add: restore_placeholders_def linux_fields NUL_def)
  have x_off: "expand_template
                (restore_placeholders linux ''pg_xlog/RECOVERYXLOG'' ''000000010000000000000002''
                   ''000000000000000000000000'')
                (cstr ''restore.sh %f %p %r'')
        = ''restore.sh 000000010000000000000002 pg_xlog/RECOVERYXLOG 000000000000000000000000''"
    by (simp add: restore_placeholders_def linux_fields NUL_def)
  have f: "length ''restore.sh 000000010000000000000002 pg_xlog/RECOVERYXLOG 000000010000000000000002'' + 1
             < MAXPGPATH linux"
    "length ''restore.sh 000000010000000000000002 pg_xlog/RECOVERYXLOG 000000000000000000000000'' + 1
             < MAXPGPATH linux"
    by (simp_all add: m)
  note T2 = retention_cutoff_for_restore[OF p e o, of stale "''restore.sh %f %p %r''"
      "''000000010000000000000002''",
      unfolded example_paths example_restart_fname XLogFileName_0_0 x_on x_off]
  from T2 f obtain cmd_on cmd_off where t2:
    "run_restore_command linux quiet stale ''restore.sh %f %p %r''
        ''000000010000000000000002'' ''RECOVERYXLOG'' True []
       = Inr (0, [EStat ''pg_xlog/RECOVERYXLOG'' (StatFail ENOENT),
                  EGetOldestRestartPoint 33554432 1,
                  EReport DEBUG3 ''executing restore command \"%s\"'', EPreRestoreCommand,
                  ESystem cmd_on 0, EPostRestoreCommand])"
    "run_restore_command linux quiet stale ''restore.sh %f %p %r''
        ''000000010000000000000002'' ''RECOVERYXLOG'' False []
       = Inr (0, [EStat ''pg_xlog/RECOVERYXLOG'' (StatFail ENOENT),
                  EReport DEBUG3 ''executing restore command \"%s\"'', EPreRestoreCommand,
                  ESystem cmd_off 0, EPostRestoreCommand])"
    "cmd_on = ''restore.sh 000000010000000000000002 pg_xlog/RECOVERYXLOG 000000010000000000000002''"
    "cmd_off = ''restore.sh 000000010000000000000002 pg_xlog/RECOVERYXLOG 000000000000000000000000''"
    by (auto simp: c a example_oses)
  have l: "\<forall>tli segno. strcmp (XLogFileName linux 0 0) (XLogFileName linux tli segno) \<le> 0"
    using retention_cutoff_for_restore[OF p e o, of stale "''restore.sh %f %p %r''"
      "''000000010000000000000002''"] by blast
  note T1 = retention_cutoff_for_restore[OF p e o, of stale "''restore.sh %f %p %r''"
      "''000000010000000000000001''",
      unfolded example_paths example_restart_fname XLogFileName_0_0]
  from T1 have t1: "run_restore_command linux quiet stale ''restore.sh %f %p %r''
        ''000000010000000000000001'' ''RECOVERYXLOG'' True []
       = Inl (AssertFailed, [EStat ''pg_xlog/RECOVERYXLOG'' (StatFail ENOENT),
                             EGetOldestRestartPoint 33554432 1])"
    by (auto simp: c a)
  show ?thesis
    using p e o a t1 t2 c l
    by (simp add: example_paths example_oses example_restart_fname)
qed

section \<open>The archive status protocol\<close>

text \<open>
  Claim C10. For every segment name, \<^verbatim>\<open>XLogArchiveNotify\<close> sends the wake-up signal to
  the archiver, when running under the postmaster, only after the \<^verbatim>\<open>.ready\<close> marker has
  been created and closed with success. If the creation fails, or the close fails, it logs
  at LOG and returns without the signal. The first part gives the events of each of the
  four runs in their order; the second says when the signal is among them.
\<close>

theorem XLogArchiveNotify_signals_only_after_marker:
  "XLogArchiveNotify P G E xlog tr =
     (if os_fopen E (length tr) (StatusFilePath P xlog ''.ready'') \<noteq> None
      then tr @ [EAllocateFile (StatusFilePath P xlog ''.ready'') ''w''
                   (os_fopen E (length tr) (StatusFilePath P xlog ''.ready'')),
                 EReport LOG ''could not create archive status file \"%s\": %m'']
      else if os_fclose E (length tr + 1) (StatusFilePath P xlog ''.ready'') \<noteq> None
      then tr @ [EAllocateFile (StatusFilePath P xlog ''.ready'') ''w'' None,
                 EFreeFile (StatusFilePath P xlog ''.ready'')
                   (os_fclose E (length tr + 1) (StatusFilePath P xlog ''.ready'')),
                 EReport LOG ''could not write archive status file \"%s\": %m'']
      else if IsUnderPostmaster G
      then tr @ [EAllocateFile (StatusFilePath P xlog ''.ready'') ''w'' None,
                 EFreeFile (StatusFilePath P xlog ''.ready'') None,
                 ESendPostmasterSignal PMSIGNAL_WAKEN_ARCHIVER]
      else tr @ [EAllocateFile (StatusFilePath P xlog ''.ready'') ''w'' None,
                 EFreeFile (StatusFilePath P xlog ''.ready'') None])
   \<and> (ESendPostmasterSignal PMSIGNAL_WAKEN_ARCHIVER
          \<in> set (drop (length tr) (XLogArchiveNotify P G E xlog tr)))
       = (IsUnderPostmaster G
            \<and> os_fopen E (length tr) (StatusFilePath P xlog ''.ready'') = None
            \<and> os_fclose E (length tr + 1) (StatusFilePath P xlog ''.ready'') = None)"
proof (cases "os_fopen E (length tr) (StatusFilePath P xlog ''.ready'')")
  case (Some e)
  then show ?thesis by (simp add: XLogArchiveNotify_def ereport_def Let_def)
next
  case None
  then show ?thesis
    by (cases "os_fclose E (length tr + 1) (StatusFilePath P xlog ''.ready'')")
       (simp_all add: XLogArchiveNotify_def ereport_def Let_def)
qed

text \<open>
  Instances: both calls succeed under the postmaster; the close fails; no postmaster.
\<close>

theorem XLogArchiveNotify_signals_only_after_marker_witness:
  "XLogArchiveNotify linux settings quiet ''000000010000000000000002'' []
     = [EAllocateFile ''pg_xlog/archive_status/000000010000000000000002.ready'' ''w'' None,
        EFreeFile ''pg_xlog/archive_status/000000010000000000000002.ready'' None,
        ESendPostmasterSignal PMSIGNAL_WAKEN_ARCHIVER]
   \<and> XLogArchiveNotify linux settings disk_full ''000000010000000000000002'' []
     = [EAllocateFile ''pg_xlog/archive_status/000000010000000000000002.ready'' ''w'' None,
        EFreeFile ''pg_xlog/archive_status/000000010000000000000002.ready'' (Some (EOTHER 28)),
        EReport LOG ''could not write archive status file \"%s\": %m'']
   \<and> XLogArchiveNotify linux (settings\<lparr>IsUnderPostmaster := False\<rparr>) quiet
         ''000000010000000000000002'' []
     = [EAllocateFile ''pg_xlog/archive_status/000000010000000000000002.ready'' ''w'' None,
        EFreeFile ''pg_xlog/archive_status/000000010000000000000002.ready'' None]"
  using XLogArchiveNotify_signals_only_after_marker[of linux settings quiet
          "''000000010000000000000002''" "[]"]
    XLogArchiveNotify_signals_only_after_marker[of linux settings disk_full
          "''000000010000000000000002''" "[]"]
    XLogArchiveNotify_signals_only_after_marker[of linux "settings\<lparr>IsUnderPostmaster := False\<rparr>"
          quiet "''000000010000000000000002''" "[]"]
  by (simp add: example_status_paths example_status_oses settings_flags)

text \<open>
  Claim C1. With archiving active, \<^verbatim>\<open>XLogArchiveCheckDone\<close> checks \<^verbatim>\<open>.done\<close>, then
  \<^verbatim>\<open>.ready\<close>, then \<^verbatim>\<open>.done\<close> again, in this order and each at its own time, and
  returns true, false, true at the first check that finds its marker; when none does, it
  calls \<^verbatim>\<open>XLogArchiveNotify\<close> and returns false. With archiving not active it returns true
  and examines nothing: the trace is unchanged.
\<close>

theorem XLogArchiveCheckDone_order:
  "XLogArchiveCheckDone P G E xlog tr =
     (if \<not> XLogArchivingActive G then (True, tr)
      else if is_ok (os_stat E (length tr) (StatusFilePath P xlog ''.done''))
      then (True, tr @ [EStat (StatusFilePath P xlog ''.done'')
                          (os_stat E (length tr) (StatusFilePath P xlog ''.done''))])
      else if is_ok (os_stat E (length tr + 1) (StatusFilePath P xlog ''.ready''))
      then (False, tr @ [EStat (StatusFilePath P xlog ''.done'')
                           (os_stat E (length tr) (StatusFilePath P xlog ''.done'')),
                         EStat (StatusFilePath P xlog ''.ready'')
                           (os_stat E (length tr + 1) (StatusFilePath P xlog ''.ready''))])
      else if is_ok (os_stat E (length tr + 2) (StatusFilePath P xlog ''.done''))
      then (True, tr @ [EStat (StatusFilePath P xlog ''.done'')
                          (os_stat E (length tr) (StatusFilePath P xlog ''.done'')),
                        EStat (StatusFilePath P xlog ''.ready'')
                          (os_stat E (length tr + 1) (StatusFilePath P xlog ''.ready'')),
                        EStat (StatusFilePath P xlog ''.done'')
                          (os_stat E (length tr + 2) (StatusFilePath P xlog ''.done''))])
      else (False,
            XLogArchiveNotify P G E xlog
              (tr @ [EStat (StatusFilePath P xlog ''.done'')
                       (os_stat E (length tr) (StatusFilePath P xlog ''.done'')),
                     EStat (StatusFilePath P xlog ''.ready'')
                       (os_stat E (length tr + 1) (StatusFilePath P xlog ''.ready'')),
                     EStat (StatusFilePath P xlog ''.done'')
                       (os_stat E (length tr + 2) (StatusFilePath P xlog ''.done''))])))"
  by (simp add: XLogArchiveCheckDone_def Let_def numeral_2_eq_2)

text \<open>
  Instances: the archiver finishes between the second and the third check; the
  \<^verbatim>\<open>.ready\<close> marker is found; no marker is found; archiving is off.
\<close>

theorem XLogArchiveCheckDone_order_witness:
  "XLogArchiveCheckDone linux settings (done_appears_at 2) ''000000010000000000000002'' []
     = (True,
        [EStat ''pg_xlog/archive_status/000000010000000000000002.done'' (StatFail ENOENT),
         EStat ''pg_xlog/archive_status/000000010000000000000002.ready'' (StatFail ENOENT),
         EStat ''pg_xlog/archive_status/000000010000000000000002.done'' (StatOk 0)])
   \<and> XLogArchiveCheckDone linux settings (done_appears_at 1) ''000000010000000000000002'' []
     = (False,
        [EStat ''pg_xlog/archive_status/000000010000000000000002.done'' (StatFail ENOENT),
         EStat ''pg_xlog/archive_status/000000010000000000000002.ready'' (StatOk 0)])
   \<and> XLogArchiveCheckDone linux settings quiet ''000000010000000000000002'' []
     = (False,
        [EStat ''pg_xlog/archive_status/000000010000000000000002.done'' (StatFail ENOENT),
         EStat ''pg_xlog/archive_status/000000010000000000000002.ready'' (StatFail ENOENT),
         EStat ''pg_xlog/archive_status/000000010000000000000002.done'' (StatFail ENOENT),
         EAllocateFile ''pg_xlog/archive_status/000000010000000000000002.ready'' ''w'' None,
         EFreeFile ''pg_xlog/archive_status/000000010000000000000002.ready'' None,
         ESendPostmasterSignal PMSIGNAL_WAKEN_ARCHIVER])
   \<and> XLogArchiveCheckDone linux (settings\<lparr>XLogArchivingActive := False\<rparr>) quiet
         ''000000010000000000000002'' []
     = (True, [])"
  using XLogArchiveCheckDone_order[of linux settings "done_appears_at 2"
          "''000000010000000000000002''" "[]"]
    XLogArchiveCheckDone_order[of linux settings "done_appears_at 1"
          "''000000010000000000000002''" "[]"]
    XLogArchiveCheckDone_order[of linux settings quiet "''000000010000000000000002''" "[]"]
    XLogArchiveCheckDone_order[of linux "settings\<lparr>XLogArchivingActive := False\<rparr>" quiet
          "''000000010000000000000002''" "[]"]
  by (simp add: example_status_paths example_status_oses example_oses settings_flags is_ok_def
        XLogArchiveNotify_def Let_def)

text \<open>
  Claim C6. \<^verbatim>\<open>XLogArchiveIsBusy\<close> returns false if \<^verbatim>\<open>.done\<close> is found, else true if
  \<^verbatim>\<open>.ready\<close> is found, else false if \<^verbatim>\<open>.done\<close> is found at the second look, else
  false if \<^verbatim>\<open>stat\<close> of the segment file fails with ENOENT, and true otherwise. It never
  creates a marker: every event it adds to the trace is a \<^verbatim>\<open>stat\<close>.
\<close>

theorem XLogArchiveIsBusy_order:
  "XLogArchiveIsBusy P E xlog tr =
     (if is_ok (os_stat E (length tr) (StatusFilePath P xlog ''.done''))
      then (False, tr @ [EStat (StatusFilePath P xlog ''.done'')
                           (os_stat E (length tr) (StatusFilePath P xlog ''.done''))])
      else if is_ok (os_stat E (length tr + 1) (StatusFilePath P xlog ''.ready''))
      then (True, tr @ [EStat (StatusFilePath P xlog ''.done'')
                          (os_stat E (length tr) (StatusFilePath P xlog ''.done'')),
                        EStat (StatusFilePath P xlog ''.ready'')
                          (os_stat E (length tr + 1) (StatusFilePath P xlog ''.ready''))])
      else if is_ok (os_stat E (length tr + 2) (StatusFilePath P xlog ''.done''))
      then (False, tr @ [EStat (StatusFilePath P xlog ''.done'')
                           (os_stat E (length tr) (StatusFilePath P xlog ''.done'')),
                         EStat (StatusFilePath P xlog ''.ready'')
                           (os_stat E (length tr + 1) (StatusFilePath P xlog ''.ready'')),
                         EStat (StatusFilePath P xlog ''.done'')
                           (os_stat E (length tr + 2) (StatusFilePath P xlog ''.done''))])
      else (os_stat E (length tr + 3) (snprintf_s (MAXPGPATH P) (XLOGDIR P @ ''/'') xlog)
              \<noteq> StatFail ENOENT,
            tr @ [EStat (StatusFilePath P xlog ''.done'')
                    (os_stat E (length tr) (StatusFilePath P xlog ''.done'')),
                  EStat (StatusFilePath P xlog ''.ready'')
                    (os_stat E (length tr + 1) (StatusFilePath P xlog ''.ready'')),
                  EStat (StatusFilePath P xlog ''.done'')
                    (os_stat E (length tr + 2) (StatusFilePath P xlog ''.done'')),
                  EStat (snprintf_s (MAXPGPATH P) (XLOGDIR P @ ''/'') xlog)
                    (os_stat E (length tr + 3)
                       (snprintf_s (MAXPGPATH P) (XLOGDIR P @ ''/'') xlog))]))
   \<and> take (length tr) (snd (XLogArchiveIsBusy P E xlog tr)) = tr
   \<and> filter (\<lambda>e. \<not> is_stat e) (drop (length tr) (snd (XLogArchiveIsBusy P E xlog tr))) = []"
  by (simp add: XLogArchiveIsBusy_def Let_def is_stat_def numeral_3_eq_3)

text \<open>
  Instances: \<^verbatim>\<open>.done\<close> appears before the third check; nothing exists, not even the
  segment; no marker exists but the segment does.
\<close>

theorem XLogArchiveIsBusy_order_witness:
  "XLogArchiveIsBusy linux (done_appears_at 2) ''000000010000000000000002'' []
     = (False,
        [EStat ''pg_xlog/archive_status/000000010000000000000002.done'' (StatFail ENOENT),
         EStat ''pg_xlog/archive_status/000000010000000000000002.ready'' (StatFail ENOENT),
         EStat ''pg_xlog/archive_status/000000010000000000000002.done'' (StatOk 0)])
   \<and> XLogArchiveIsBusy linux quiet ''000000010000000000000002'' []
     = (False,
        [EStat ''pg_xlog/archive_status/000000010000000000000002.done'' (StatFail ENOENT),
         EStat ''pg_xlog/archive_status/000000010000000000000002.ready'' (StatFail ENOENT),
         EStat ''pg_xlog/archive_status/000000010000000000000002.done'' (StatFail ENOENT),
         EStat ''pg_xlog/000000010000000000000002'' (StatFail ENOENT)])
   \<and> XLogArchiveIsBusy linux (done_appears_at 3) ''000000010000000000000002'' []
     = (True,
        [EStat ''pg_xlog/archive_status/000000010000000000000002.done'' (StatFail ENOENT),
         EStat ''pg_xlog/archive_status/000000010000000000000002.ready'' (StatFail ENOENT),
         EStat ''pg_xlog/archive_status/000000010000000000000002.done'' (StatFail ENOENT),
         EStat ''pg_xlog/000000010000000000000002'' (StatOk 0)])"
  using XLogArchiveIsBusy_order[of linux "done_appears_at 2" "''000000010000000000000002''" "[]"]
    XLogArchiveIsBusy_order[of linux quiet "''000000010000000000000002''" "[]"]
    XLogArchiveIsBusy_order[of linux "done_appears_at 3" "''000000010000000000000002''" "[]"]
  by (simp add: example_status_paths example_status_oses example_oses example_paths is_ok_def)

end
